theory Spec2Isabelle
  imports Complex_Main "HOL-Library.Word" "HOL-Library.Log_Nat"
begin

unbundle bit_operations_syntax

section \<open>Machine integers\<close>

text \<open>
  The LFSR registers of the providers are C++ \<open>unsigned int\<close> values (32 bits).
  \<open>bit_at r k\<close> is the source expression \<open>(r >> k) & 1\<close>.
\<close>

type_synonym uint = "32 word"

definition bit_at :: "uint \<Rightarrow> nat \<Rightarrow> uint" where
  "bit_at r k = drop_bit k r AND 1"

section \<open>GPS L1 C/A code generator (cdma_providers.cpp, GpsL1Provider)\<close>

record GPSCodeState =
  g1_register :: uint
  g2_register :: uint
  chip_count :: int

text \<open>The constructor \<open>GPSCodeState()\<close>.\<close>

definition GPSCodeState_init :: GPSCodeState where
  "GPSCodeState_init = \<lparr>g1_register = 0x3FF, g2_register = 0x3FF, chip_count = 0\<rparr>"

text \<open>The literal table \<open>gps_tap_delays[37][2]\<close>.\<close>

definition gps_tap_delays :: "(int \<times> int) list" where
  "gps_tap_delays =
    [(2, 6), (3, 7), (4, 8), (5, 9), (1, 9), (2, 10), (1, 8), (2, 9),
     (3, 10), (2, 3), (3, 4), (5, 6), (6, 7), (7, 8), (8, 9), (9, 10),
     (1, 4), (2, 5), (3, 6), (4, 7), (5, 8), (6, 9), (1, 3), (4, 6),
     (5, 7), (6, 8), (7, 9), (8, 10), (1, 6), (2, 7), (3, 8), (4, 9),
     (5, 10), (4, 10), (1, 7), (2, 8), (4, 10)]"

text \<open>
  \<open>gps_tap_delays[prn-1][1]\<close>. The source indexes the table without a range check in the
  chip branch; outside 1..37 the read is out of bounds, which the model makes \<open>None\<close>.
\<close>

definition gps_tap_delay :: "int \<Rightarrow> int option" where
  "gps_tap_delay prn =
     (if 1 \<le> prn \<and> prn \<le> 37 then Some (snd (gps_tap_delays ! nat (prn - 1))) else None)"

definition g1_feedback :: "uint \<Rightarrow> uint" where
  "g1_feedback r = bit_at r 2 XOR bit_at r 9"

definition g2_feedback :: "uint \<Rightarrow> uint" where
  "g2_feedback r =
     bit_at r 2 XOR bit_at r 9 XOR bit_at r 8 XOR bit_at r 6 XOR
     bit_at r 3 XOR bit_at r 1 XOR bit_at r 0"

text \<open>\<open>((feedback & 1) << 9) | (reg >> 1)\<close>\<close>

definition g1_advance :: "uint \<Rightarrow> uint" where
  "g1_advance r = push_bit 9 (g1_feedback r AND 1) OR drop_bit 1 r"

definition g2_advance :: "uint \<Rightarrow> uint" where
  "g2_advance r = push_bit 9 (g2_feedback r AND 1) OR drop_bit 1 r"

text \<open>The loops \<open>for (int d = 0; d < delay; ++d)\<close> that advance a copy of G2.\<close>

fun g2_advance_n :: "nat \<Rightarrow> uint \<Rightarrow> uint" where
  "g2_advance_n 0 r = r"
| "g2_advance_n (Suc n) r = g2_advance_n n (g2_advance r)"

text \<open>
  Creation of \<open>code_states_[prn]\<close> on first use: the default state, with G2 pre-advanced by
  the tap delay when the PRN is in 1..37.
\<close>

definition gps_initial_code_state :: "int \<Rightarrow> GPSCodeState" where
  "gps_initial_code_state prn =
     (case gps_tap_delay prn of
        Some delay \<Rightarrow> GPSCodeState_init\<lparr>g2_register := g2_advance_n (nat delay) 0x3FF\<rparr>
      | None \<Rightarrow> GPSCodeState_init)"

text \<open>
  The body of \<open>if (chip_index != state.chip_count)\<close>: the Gold chip (0 or 1) is the
  top bit of G1 XOR the top bit of a copy of G2 advanced \<open>tap_delay\<close> more times; then
  both registers advance one chip. \<open>None\<close> is the out-of-bounds table read.
\<close>

definition gps_gold_chip :: "int \<Rightarrow> GPSCodeState \<Rightarrow> uint option" where
  "gps_gold_chip prn st =
     (case gps_tap_delay prn of
        None \<Rightarrow> None
      | Some tap_delay \<Rightarrow>
          Some (bit_at (g1_register st) 9 XOR
                bit_at (g2_advance_n (nat tap_delay) (g2_register st)) 9))"

definition gps_advance_registers :: "GPSCodeState \<Rightarrow> GPSCodeState" where
  "gps_advance_registers st =
     st\<lparr>g1_register := g1_advance (g1_register st),
        g2_register := g2_advance (g2_register st)\<rparr>"

text \<open>
  The generator run on its own: the state after \<open>n\<close> chip advances from the initial
  state of a PRN, the \<open>n\<close>-th chip it emits, and the sum of the first \<open>n\<close> chips in the
  bipolar form the provider transmits (\<open>chip == 1 ? 1 : -1\<close>).
\<close>

fun gps_state_after :: "int \<Rightarrow> nat \<Rightarrow> GPSCodeState" where
  "gps_state_after prn 0 = gps_initial_code_state prn"
| "gps_state_after prn (Suc n) = gps_advance_registers (gps_state_after prn n)"

definition gps_chip_seq :: "int \<Rightarrow> nat \<Rightarrow> uint option" where
  "gps_chip_seq prn n = gps_gold_chip prn (gps_state_after prn n)"

definition bipolar :: "uint \<Rightarrow> int" where
  "bipolar chip = (if chip = 1 then 1 else -1)"

fun gps_balance_from :: "int \<Rightarrow> nat \<Rightarrow> GPSCodeState \<Rightarrow> int" where
  "gps_balance_from prn 0 st = 0"
| "gps_balance_from prn (Suc n) st =
     (case gps_gold_chip prn st of
        None \<Rightarrow> 0
      | Some chip \<Rightarrow> bipolar chip + gps_balance_from prn n (gps_advance_registers st))"

definition gps_balance :: "int \<Rightarrow> nat \<Rightarrow> int" where
  "gps_balance prn n = gps_balance_from prn n (gps_initial_code_state prn)"

section \<open>Galileo E1 code generator (cdma_providers.cpp, GalileoE1Provider)\<close>

record GalileoCodeState =
  primary_lfsr :: uint
  secondary_lfsr :: uint
  primary_chip_count :: int
  secondary_chip_count :: int
  boc_phase :: int

definition GalileoCodeState_init :: GalileoCodeState where
  "GalileoCodeState_init =
     \<lparr>primary_lfsr = 0xFFF, secondary_lfsr = 0x1F, primary_chip_count = 0,
      secondary_chip_count = 0, boc_phase = 0\<rparr>"

text \<open>
  \<open>primary_seed = 0x800 + ((prn * 13) & 0xFFF)\<close> and
  \<open>secondary_seed = 0x10 + ((prn * 3) & 0x1F)\<close>, stored masked with \<open>0xFFF\<close> and \<open>0x1F\<close>.
\<close>

definition galileo_initial_code_state :: "int \<Rightarrow> GalileoCodeState" where
  "galileo_initial_code_state prn =
     (let primary_seed = 0x800 + ((word_of_int prn * 13) AND 0xFFF);
          secondary_seed = 0x10 + ((word_of_int prn * 3) AND 0x1F)
      in GalileoCodeState_init\<lparr>primary_lfsr := primary_seed AND 0xFFF,
                                secondary_lfsr := secondary_seed AND 0x1F\<rparr>)"

definition primary_feedback :: "uint \<Rightarrow> uint" where
  "primary_feedback r =
     bit_at r 0 XOR bit_at r 2 XOR bit_at r 3 XOR bit_at r 5 XOR
     bit_at r 6 XOR bit_at r 9 XOR bit_at r 10 XOR bit_at r 11"

definition secondary_feedback :: "uint \<Rightarrow> uint" where
  "secondary_feedback r = bit_at r 2 XOR bit_at r 4"

definition primary_advance :: "uint \<Rightarrow> uint" where
  "primary_advance r = push_bit 11 (primary_feedback r AND 1) OR drop_bit 1 r"

definition secondary_advance :: "uint \<Rightarrow> uint" where
  "secondary_advance r = push_bit 4 (secondary_feedback r AND 1) OR drop_bit 1 r"

definition galileo_tiered_chip :: "GalileoCodeState \<Rightarrow> uint" where
  "galileo_tiered_chip st = bit_at (primary_lfsr st) 11 XOR bit_at (secondary_lfsr st) 4"

definition galileo_advance_registers :: "GalileoCodeState \<Rightarrow> GalileoCodeState" where
  "galileo_advance_registers st =
     st\<lparr>primary_lfsr := primary_advance (primary_lfsr st),
        secondary_lfsr := secondary_advance (secondary_lfsr st)\<rparr>"

fun galileo_state_after :: "int \<Rightarrow> nat \<Rightarrow> GalileoCodeState" where
  "galileo_state_after prn 0 = galileo_initial_code_state prn"
| "galileo_state_after prn (Suc n) = galileo_advance_registers (galileo_state_after prn n)"

section \<open>BeiDou B1I code generator (cdma_providers.cpp, BeidouB1Provider)\<close>

record BeidouCodeState =
  lfsr1_register :: uint
  lfsr2_register :: uint
  bds_chip_count :: int

definition BeidouCodeState_init :: BeidouCodeState where
  "BeidouCodeState_init = \<lparr>lfsr1_register = 0x7FF, lfsr2_register = 0x7FF, bds_chip_count = 0\<rparr>"

text \<open>\<open>seed1 = 0x400 + (prn & 0x3FF)\<close>, \<open>seed2 = 0x600 + ((prn * 7) & 0x3FF)\<close>, masked with \<open>0x7FF\<close>.\<close>

definition beidou_initial_code_state :: "int \<Rightarrow> BeidouCodeState" where
  "beidou_initial_code_state prn =
     (let seed1 = 0x400 + (word_of_int prn AND 0x3FF);
          seed2 = 0x600 + ((word_of_int prn * 7) AND 0x3FF)
      in BeidouCodeState_init\<lparr>lfsr1_register := seed1 AND 0x7FF,
                               lfsr2_register := seed2 AND 0x7FF\<rparr>)"

definition lfsr1_feedback :: "uint \<Rightarrow> uint" where
  "lfsr1_feedback r =
     bit_at r 2 XOR bit_at r 5 XOR bit_at r 8 XOR bit_at r 9 XOR bit_at r 10"

definition lfsr2_feedback :: "uint \<Rightarrow> uint" where
  "lfsr2_feedback r =
     bit_at r 3 XOR bit_at r 4 XOR bit_at r 7 XOR bit_at r 8 XOR bit_at r 9 XOR bit_at r 10"

definition lfsr1_advance :: "uint \<Rightarrow> uint" where
  "lfsr1_advance r = push_bit 10 (lfsr1_feedback r AND 1) OR drop_bit 1 r"

definition lfsr2_advance :: "uint \<Rightarrow> uint" where
  "lfsr2_advance r = push_bit 10 (lfsr2_feedback r AND 1) OR drop_bit 1 r"

text \<open>
  C's \<open>%\<close> truncates towards zero: the remainder has the sign of the dividend.
  C's \<open>/\<close> on \<open>int\<close> likewise.
\<close>

definition c_rem :: "int \<Rightarrow> int \<Rightarrow> int" where
  "c_rem a b = sgn a * (\<bar>a\<bar> mod \<bar>b\<bar>)"

definition c_div :: "int \<Rightarrow> int \<Rightarrow> int" where
  "c_div a b = sgn a * sgn b * (\<bar>a\<bar> div \<bar>b\<bar>)"

text \<open>The \<open>switch (sat.prn % 4)\<close> that combines the two output chips.\<close>

definition beidou_css_chip :: "int \<Rightarrow> BeidouCodeState \<Rightarrow> uint" where
  "beidou_css_chip prn st =
     (let lfsr1_chip = bit_at (lfsr1_register st) 10;
          lfsr2_chip = bit_at (lfsr2_register st) 10;
          sel = c_rem prn 4
      in if sel = 0 then lfsr1_chip XOR lfsr2_chip
         else if sel = 1 then lfsr1_chip AND (NOT lfsr2_chip AND 1)
         else if sel = 2 then (NOT lfsr1_chip AND 1) XOR lfsr2_chip
         else if sel = 3 then lfsr1_chip
         else lfsr1_chip XOR lfsr2_chip)"

definition beidou_advance_registers :: "BeidouCodeState \<Rightarrow> BeidouCodeState" where
  "beidou_advance_registers st =
     st\<lparr>lfsr1_register := lfsr1_advance (lfsr1_register st),
        lfsr2_register := lfsr2_advance (lfsr2_register st)\<rparr>"

fun beidou_state_after :: "int \<Rightarrow> nat \<Rightarrow> BeidouCodeState" where
  "beidou_state_after prn 0 = beidou_initial_code_state prn"
| "beidou_state_after prn (Suc n) = beidou_advance_registers (beidou_state_after prn n)"

section \<open>GLONASS C/A code generator (constellation/glonass.c)\<close>

text \<open>
  \<open>generate_glonass_code(prn, code, length)\<close>: a 9-bit register, all ones at the start;
  each round writes \<open>state & 1 ? -1 : 1\<close> and shifts in
  \<open>((state >> 8) ^ (state >> 7)) & 1\<close> at bit 8. With a PRN outside 1..24 or a length
  other than 511 the function returns without writing, so \<open>code\<close> is what it was.
\<close>

definition glonass_feedback :: "uint \<Rightarrow> uint" where
  "glonass_feedback state = (drop_bit 8 state XOR drop_bit 7 state) AND 1"

definition glonass_advance :: "uint \<Rightarrow> uint" where
  "glonass_advance state = drop_bit 1 state OR push_bit 8 (glonass_feedback state)"

definition glonass_output :: "uint \<Rightarrow> int" where
  "glonass_output state = (if state AND 1 \<noteq> 0 then -1 else 1)"

fun glonass_code_loop :: "nat \<Rightarrow> uint \<Rightarrow> int list" where
  "glonass_code_loop 0 state = []"
| "glonass_code_loop (Suc n) state = glonass_output state # glonass_code_loop n (glonass_advance state)"

fun glonass_state_after :: "nat \<Rightarrow> uint" where
  "glonass_state_after 0 = 0x1FF"
| "glonass_state_after (Suc n) = glonass_advance (glonass_state_after n)"

definition GLONASS_CA_CODE_LENGTH :: nat where
  "GLONASS_CA_CODE_LENGTH = 511"

definition generate_glonass_code :: "int \<Rightarrow> int list \<Rightarrow> int \<Rightarrow> int list" where
  "generate_glonass_code prn code len =
     (if prn < 1 \<or> prn > 24 \<or> len \<noteq> int GLONASS_CA_CODE_LENGTH then code
      else glonass_code_loop GLONASS_CA_CODE_LENGTH 0x1FF)"

section \<open>Numeric conversions\<close>

text \<open>
  \<open>double\<close> and \<open>float\<close> values are modelled as the real numbers they denote. In the
  CDMA providers, the NCO and the orchestrator the operations are the exact ones and
  \<open>M_PI\<close> is \<open>pi\<close>: rounding is left out there. In the signal path of the GLONASS
  provider, whose table index is a truncated quotient that exact arithmetic puts on an
  integer, every operation is rounded as IEEE 754 does (see below). Integer samples are
  \<open>int\<close> values with every narrowing conversion of the source written out.

  \<open>static_cast<int>(double)\<close> truncates towards zero; a value outside the range of
  \<open>int\<close> is undefined in C++, and the model takes what the x86 conversion instruction
  returns there (the most negative \<open>int\<close>). \<open>static_cast<int16_t>(int32)\<close> keeps the low
  16 bits. \<open>static_cast<size_t>(double)\<close> is taken modulo \<open>2^64\<close>, which is the defined
  result for values from 0 up to \<open>2^64\<close> and the x86-64 result for negative ones.
  \<open>static_cast<int16_t>\<close> of a \<open>double\<close> or a \<open>float\<close> is \<open>double_to_int16\<close>: the
  truncation to 32 bits, of which the low 16 bits are kept.
\<close>

type_synonym cint16 = "int \<times> int"

definition trunc_toward_zero :: "real \<Rightarrow> int" where
  "trunc_toward_zero x = (if 0 \<le> x then \<lfloor>x\<rfloor> else \<lceil>x\<rceil>)"

definition double_to_int32 :: "real \<Rightarrow> int" where
  "double_to_int32 x =
     (let t = trunc_toward_zero x
      in if - 2147483648 \<le> t \<and> t \<le> 2147483647 then t else - 2147483648)"

definition int32_to_int16 :: "int \<Rightarrow> int" where
  "int32_to_int16 x = (x + 32768) mod 65536 - 32768"

definition double_to_int16 :: "real \<Rightarrow> int" where
  "double_to_int16 x = int32_to_int16 (double_to_int32 x)"

definition double_to_size_t :: "real \<Rightarrow> nat" where
  "double_to_size_t x = nat (trunc_toward_zero x mod 2 ^ 64)"

text \<open>\<open>fmod(x, y)\<close>: the remainder of the division truncated towards zero.\<close>

definition c_fmod :: "real \<Rightarrow> real \<Rightarrow> real" where
  "c_fmod x y = x - y * real_of_int (trunc_toward_zero (x / y))"

subsection \<open>Rounded arithmetic\<close>

text \<open>
  Round to nearest, ties to even, on a significand of \<open>p\<close> bits: \<open>binary_exponent x\<close> is
  the \<open>e\<close> with \<open>2^e \<le> |x| < 2^(e+1)\<close>, and \<open>x\<close> is rounded to a multiple of
  \<open>2^(e - p + 1)\<close>. The exponent is not bounded: overflow to infinity and the subnormal
  numbers are left out, as are infinities and NaN.
\<close>

definition round_half_even :: "real \<Rightarrow> int" where
  "round_half_even x =
     (let f = \<lfloor>x\<rfloor>; d = x - of_int f
      in if d < 1 / 2 then f else if 1 / 2 < d then f + 1 else if even f then f else f + 1)"

definition binary_exponent :: "real \<Rightarrow> int" where
  "binary_exponent x =
     (if 1 \<le> \<bar>x\<bar> then int (floorlog 2 (nat \<lfloor>\<bar>x\<bar>\<rfloor>)) - 1
      else - int (floorlog 2 (nat (\<lceil>1 / \<bar>x\<bar>\<rceil> - 1))))"

definition round_to_bits :: "nat \<Rightarrow> real \<Rightarrow> real" where
  "round_to_bits p x =
     (if x = 0 then 0
      else let ulp = 2 powi (binary_exponent x - int p + 1)
           in of_int (round_half_even (x / ulp)) * ulp)"

text \<open>The result of an operation in \<open>double\<close> (binary64) and in \<open>float\<close> (binary32).\<close>

definition to_double :: "real \<Rightarrow> real" where
  "to_double x = round_to_bits 53 x"

definition to_float :: "real \<Rightarrow> real" where
  "to_float x = round_to_bits 24 x"

text \<open>
  \<open>M_PI\<close> is the \<open>double\<close> nearest to \<open>pi\<close>, which is what the literal
  \<open>3.14159265358979323846\<close> denotes. \<open>std::cos\<close> and \<open>std::sin\<close> on a \<open>double\<close> are taken
  as correctly rounded.
\<close>

definition M_PI :: real where
  "M_PI = 884279719003555 / 281474976710656"

definition libm_cos :: "real \<Rightarrow> real" where
  "libm_cos x = to_double (cos x)"

definition libm_sin :: "real \<Rightarrow> real" where
  "libm_sin x = to_double (sin x)"

text \<open>
  The product of two \<open>std::complex<float>\<close> values: the four products and then the
  difference and the sum, each a \<open>float\<close> operation.
\<close>

definition complex_float_mult :: "real \<times> real \<Rightarrow> real \<times> real \<Rightarrow> real \<times> real" where
  "complex_float_mult x y =
     (to_float (to_float (fst x * fst y) - to_float (snd x * snd y)),
      to_float (to_float (fst x * snd y) + to_float (snd x * fst y)))"

subsection \<open>Saturating accumulation\<close>

text \<open>
  The accumulation step shared by the three CDMA providers: the 16-bit buffer entry and
  the 16-bit sample are widened to \<open>int32_t\<close>, added, clamped with
  \<open>std::max(-32768, std::min(32767, new_i))\<close> and narrowed.
\<close>

definition accumulate_sample :: "cint16 \<Rightarrow> cint16 \<Rightarrow> cint16" where
  "accumulate_sample b s =
     (let new_i = fst b + fst s; new_q = snd b + snd s
      in (int32_to_int16 (max (- 32768) (min 32767 new_i)),
          int32_to_int16 (max (- 32768) (min 32767 new_q))))"

section \<open>Digital NCO (cdma_providers.cpp, DigitalNCO)\<close>

record DigitalNCO =
  sample_rate_hz :: real
  frequency_hz :: real
  phase :: real
  phase_increment :: real

definition LUT_SIZE :: nat where
  "LUT_SIZE = 16384"

text \<open>The table entry \<open>i\<close>: \<open>(cos angle, sin angle)\<close> with \<open>angle = 2 pi i / LUT_SIZE\<close>.\<close>

definition lookup_table :: "nat \<Rightarrow> real \<times> real" where
  "lookup_table i =
     (let angle = 2 * pi * real i / real LUT_SIZE in (cos angle, sin angle))"

definition DigitalNCO_new :: "real \<Rightarrow> DigitalNCO" where
  "DigitalNCO_new fs =
     \<lparr>sample_rate_hz = fs, frequency_hz = 0, phase = 0, phase_increment = 0\<rparr>"

definition nco_set_frequency :: "real \<Rightarrow> DigitalNCO \<Rightarrow> DigitalNCO" where
  "nco_set_frequency f n =
     n\<lparr>frequency_hz := f, phase_increment := 2 * pi * f / sample_rate_hz n\<rparr>"

definition nco_reset_phase :: "DigitalNCO \<Rightarrow> DigitalNCO" where
  "nco_reset_phase n = n\<lparr>phase := 0\<rparr>"

text \<open>One round of the loop of \<open>generate_samples\<close>: the table index, and the phase advance
  with its single conditional subtraction.\<close>

definition nco_index :: "DigitalNCO \<Rightarrow> nat" where
  "nco_index n = double_to_size_t (phase n * real LUT_SIZE / (2 * pi)) mod LUT_SIZE"

definition nco_advance :: "DigitalNCO \<Rightarrow> DigitalNCO" where
  "nco_advance n =
     (let p = phase n + phase_increment n
      in n\<lparr>phase := (if p \<ge> 2 * pi then p - 2 * pi else p)\<rparr>)"

fun generate_samples :: "nat \<Rightarrow> DigitalNCO \<Rightarrow> (real \<times> real) list \<times> DigitalNCO" where
  "generate_samples 0 n = ([], n)"
| "generate_samples (Suc count) n =
     (let (rest, n') = generate_samples count (nco_advance n)
      in (lookup_table (nco_index n) # rest, n'))"

text \<open>The phases the oscillator holds after each of the samples of one call.\<close>

fun nco_phases :: "nat \<Rightarrow> DigitalNCO \<Rightarrow> real list" where
  "nco_phases 0 n = []"
| "nco_phases (Suc count) n = phase (nco_advance n) # nco_phases count (nco_advance n)"

text \<open>\<open>mix_signal\<close>: complex product of each input sample with the carrier, scaled by 0.5.\<close>

definition mix_one :: "cint16 \<Rightarrow> real \<times> real \<Rightarrow> cint16" where
  "mix_one s c =
     (let re = real_of_int (fst s) * fst c - real_of_int (snd s) * snd c;
          im = real_of_int (fst s) * snd c + real_of_int (snd s) * fst c
      in (double_to_int16 (re * 0.5), double_to_int16 (im * 0.5)))"

definition mix_signal :: "cint16 list \<Rightarrow> DigitalNCO \<Rightarrow> cint16 list \<times> DigitalNCO" where
  "mix_signal input n =
     (let (carrier, n') = generate_samples (length input) n
      in (map2 mix_one input carrier, n'))"

section \<open>Shared data (quad_gnss_interface.h)\<close>

datatype ConstellationType = GPS | GLONASS | GALILEO | BEIDOU | NONE

text \<open>
  \<open>GlobalConfig\<close>: the output and simulation sub-structures are never read by the code
  modelled here and are left out.
\<close>

record GlobalConfig =
  sampling_rate_hz :: real
  center_frequency_hz :: real
  active_constellations :: "ConstellationType list"

definition DEFAULT_SAMPLING_RATE :: real where
  "DEFAULT_SAMPLING_RATE = 60000000"

definition DEFAULT_CENTER_FREQ :: real where
  "DEFAULT_CENTER_FREQ = 1582000000"

definition GlobalConfig_default :: GlobalConfig where
  "GlobalConfig_default =
     \<lparr>sampling_rate_hz = DEFAULT_SAMPLING_RATE, center_frequency_hz = DEFAULT_CENTER_FREQ,
      active_constellations = [GPS, GLONASS, GALILEO, BEIDOU]\<rparr>"

text \<open>
  \<open>EphemerisData\<close>, with the fields that the Doppler computation of
  \<open>calculate_satellite_position\<close> reads; the harmonic, inclination, node and clock terms
  only enter the position, which \<open>generate_chunk\<close> never reads.
\<close>

record EphemerisData =
  eph_prn :: int
  sqrt_a :: real
  eph_e :: real
  m0 :: real
  delta_n :: real
  toe :: real
  is_valid :: bool

definition EphemerisData_default :: EphemerisData where
  "EphemerisData_default =
     \<lparr>eph_prn = - 1, sqrt_a = 0, eph_e = 0, m0 = 0, delta_n = 0, toe = 0, is_valid = False\<rparr>"

text \<open>
  The errors: every one is a \<open>QuadGNSSException\<close> in the source, told apart by its
  message. \<open>NotReady\<close> is "... Provider not ready for signal generation",
  \<open>EphemerisLoad\<close> is "Failed to load ... ephemeris", \<open>ConfigInvalid\<close> is
  "Invalid configuration", \<open>InvalidParameters\<close> is "SignalOrchestrator not properly
  initialized or invalid parameters", \<open>NullInput\<close> is "Cannot add null constellation".
  \<open>OutOfBoundsRead\<close> is no exception: it marks a read outside the tap-delay table.
\<close>

datatype error = NotReady | EphemerisLoad | ConfigInvalid | InvalidParameters | NullInput
  | OutOfBoundsRead

text \<open>
  The RINEX reader is outside the model: \<open>rinex c path\<close> is what \<open>parse_gps_rinex2\<close>
  (for GPS) or \<open>parse_rinex3\<close> (for the others) returns for a path, \<open>None\<close> when it
  throws because the file cannot be opened.
\<close>

type_synonym rinex_reader = "ConstellationType \<Rightarrow> string \<Rightarrow> (int \<rightharpoonup> EphemerisData) option"

section \<open>CDMA provider base (cdma_providers.cpp, CDMAProviderBase)\<close>

record SatelliteConfig =
  prn :: int
  doppler_hz :: real
  power_dbm :: real
  code_phase_chips :: real
  carrier_phase_rad :: real
  is_active :: bool
  ephemeris :: EphemerisData

record CDMAProviderBase =
  constellation_type :: ConstellationType
  carrier_frequency_hz :: real
  frequency_offset_hz :: real
  configured :: bool
  ephemeris_loaded :: bool
  nco :: DigitalNCO
  config :: GlobalConfig
  active_satellites :: "SatelliteConfig list"

text \<open>
  The loops of \<open>initialize_default_satellites\<close>: PRN 1 to \<open>last_prn\<close>, the first
  \<open>n_active\<close> of them active.
\<close>

definition default_satellites :: "int \<Rightarrow> real \<Rightarrow> int \<Rightarrow> SatelliteConfig list" where
  "default_satellites last_prn pwr n_active =
     map (\<lambda>p. \<lparr>prn = p, doppler_hz = 0, power_dbm = pwr, code_phase_chips = 0,
               carrier_phase_rad = 0, is_active = (p \<le> n_active),
               ephemeris = EphemerisData_default\<rparr>) [1..last_prn]"

definition initialize_default_satellites :: "ConstellationType \<Rightarrow> SatelliteConfig list" where
  "initialize_default_satellites c =
     (case c of
        GPS \<Rightarrow> default_satellites 32 (- 130) 8
      | GALILEO \<Rightarrow> default_satellites 36 (- 127) 6
      | BEIDOU \<Rightarrow> default_satellites 37 (- 133) 5
      | _ \<Rightarrow> [])"

definition cdma_set_frequency_offset ::
  "real \<Rightarrow> 'a CDMAProviderBase_scheme \<Rightarrow> 'a CDMAProviderBase_scheme" where
  "cdma_set_frequency_offset offset_hz p =
     p\<lparr>frequency_offset_hz := offset_hz, nco := nco_set_frequency offset_hz (nco p)\<rparr>"

definition cdma_configure ::
  "GlobalConfig \<Rightarrow> 'a CDMAProviderBase_scheme \<Rightarrow> 'a CDMAProviderBase_scheme" where
  "cdma_configure cfg p =
     p\<lparr>config := cfg,
       active_satellites := initialize_default_satellites (constellation_type p),
       configured := True\<rparr>"

definition cdma_is_ready :: "'a CDMAProviderBase_scheme \<Rightarrow> bool" where
  "cdma_is_ready p \<longleftrightarrow> configured p \<and> ephemeris_loaded p \<and> active_satellites p \<noteq> []"

text \<open>The loop of \<open>load_ephemeris\<close> over the satellites, the same in the three providers.\<close>

definition attach_ephemeris ::
  "(int \<rightharpoonup> EphemerisData) \<Rightarrow> SatelliteConfig list \<Rightarrow> SatelliteConfig list" where
  "attach_ephemeris m sats =
     map (\<lambda>sat. case m (prn sat) of Some eph \<Rightarrow> sat\<lparr>ephemeris := eph\<rparr> | None \<Rightarrow> sat) sats"

text \<open>
  \<open>calculate_satellite_position\<close>, the part that yields \<open>pos.doppler\<close>: ten rounds of
  \<open>E = M + e sin E\<close>, the true anomaly, and the simplified relative velocity.
\<close>

fun kepler_rounds :: "nat \<Rightarrow> real \<Rightarrow> real \<Rightarrow> real \<Rightarrow> real" where
  "kepler_rounds 0 M ecc E = E"
| "kepler_rounds (Suc k) M ecc E = kepler_rounds k M ecc (M + ecc * sin E)"

definition calculate_satellite_doppler :: "EphemerisData \<Rightarrow> real \<Rightarrow> real" where
  "calculate_satellite_doppler eph time_sec =
     (if \<not> is_valid eph then 0
      else
        let mu = 398600500000000;
            dt = time_sec - toe eph;
            a = sqrt_a eph * sqrt_a eph;
            n0 = sqrt (mu / (a * a * a));
            n = n0 + delta_n eph;
            M = m0 eph + n * dt;
            E = kepler_rounds 10 M (eph_e eph) M;
            nu = 2 * arctan (sqrt ((1 + eph_e eph) / (1 - eph_e eph)) * tan (E / 2));
            v_rel = sqrt (mu / (a * a * a)) * sqrt_a eph * eph_e eph * sin nu
        in - v_rel * 1575420000 / 299792458)"

definition update_doppler :: "real \<Rightarrow> SatelliteConfig \<Rightarrow> SatelliteConfig" where
  "update_doppler time_now sat =
     (if is_valid (ephemeris sat)
      then sat\<lparr>doppler_hz := calculate_satellite_doppler (ephemeris sat) time_now\<rparr>
      else sat)"

text \<open>The carrier-phase update that ends the work on one satellite.\<close>

definition update_carrier_phase ::
  "real \<Rightarrow> GlobalConfig \<Rightarrow> nat \<Rightarrow> SatelliteConfig \<Rightarrow> SatelliteConfig" where
  "update_carrier_phase carrier_freq cfg sample_count sat =
     sat\<lparr>carrier_phase_rad :=
           c_fmod (carrier_phase_rad sat +
                   2 * pi * (carrier_freq + doppler_hz sat) * real sample_count
                     / sampling_rate_hz cfg) (2 * pi)\<rparr>"

text \<open>The final mix, applied when \<open>std::abs(frequency_offset_hz_) > 1.0\<close>.\<close>

definition apply_frequency_offset ::
  "real \<Rightarrow> DigitalNCO \<Rightarrow> cint16 list \<Rightarrow> cint16 list \<times> DigitalNCO" where
  "apply_frequency_offset offset_hz n buffer =
     (if \<bar>offset_hz\<bar> > 1 then mix_signal buffer n else (buffer, n))"

section \<open>GPS L1 provider (cdma_providers.cpp, GpsL1Provider)\<close>

record GpsL1Provider = CDMAProviderBase +
  gps_code_states :: "int \<rightharpoonup> GPSCodeState"
  gps_ephemeris_data :: "int \<rightharpoonup> EphemerisData"

definition GpsL1Provider_new :: GpsL1Provider where
  "GpsL1Provider_new =
     \<lparr>constellation_type = GPS, carrier_frequency_hz = 1575420000, frequency_offset_hz = 0,
      configured = False, ephemeris_loaded = False, nco = DigitalNCO_new DEFAULT_SAMPLING_RATE,
      config = GlobalConfig_default, active_satellites = [],
      gps_code_states = Map.empty, gps_ephemeris_data = Map.empty\<rparr>"

definition gps_load_ephemeris ::
  "rinex_reader \<Rightarrow> string \<Rightarrow> GpsL1Provider \<Rightarrow> error + GpsL1Provider" where
  "gps_load_ephemeris rinex file_path p =
     (case rinex GPS file_path of
        None \<Rightarrow> Inl EphemerisLoad
      | Some m \<Rightarrow>
          Inr (p\<lparr>gps_ephemeris_data := m,
                 active_satellites := attach_ephemeris m (active_satellites p),
                 ephemeris_loaded := True\<rparr>))"

text \<open>
  One round of the sample loop for one satellite: the chip index of the sample time, a
  new chip when the index differs from \<open>state.chip_count\<close>, the BPSK carrier sample
  scaled by 1000, and the saturating addition into the buffer.
\<close>

definition gps_sample ::
  "GlobalConfig \<Rightarrow> real \<Rightarrow> nat \<Rightarrow> GPSCodeState \<times> SatelliteConfig \<times> cint16 list
     \<Rightarrow> (GPSCodeState \<times> SatelliteConfig \<times> cint16 list) option" where
  "gps_sample cfg time_now i s =
     (case s of (state, sat, buffer) \<Rightarrow>
        let time = time_now + real i / sampling_rate_hz cfg;
            chip_position = time * 1023000;
            chip_index = c_rem (double_to_int32 chip_position) 1023;
            chipped =
              (if chip_index \<noteq> chip_count state
               then (case gps_gold_chip (prn sat) state of
                       None \<Rightarrow> None
                     | Some gold_chip \<Rightarrow>
                         Some (gps_advance_registers (state\<lparr>chip_count := chip_index\<rparr>),
                               sat\<lparr>code_phase_chips := real (unat gold_chip)\<rparr>))
               else Some (state, sat))
        in case chipped of
             None \<Rightarrow> None
           | Some (state', sat') \<Rightarrow>
               let chip_value = (if code_phase_chips sat' = 1 then 1 else - 1);
                   carrier_phase =
                     2 * pi * (1575420000 + doppler_hz sat') * time + carrier_phase_rad sat';
                   carrier = cos carrier_phase;
                   signal_value = chip_value * carrier * 1000;
                   sample = (double_to_int16 signal_value, 0)
               in Some (state', sat', buffer[i := accumulate_sample (buffer ! i) sample]))"

fun gps_sample_loop ::
  "GlobalConfig \<Rightarrow> real \<Rightarrow> nat list \<Rightarrow> GPSCodeState \<times> SatelliteConfig \<times> cint16 list
     \<Rightarrow> (GPSCodeState \<times> SatelliteConfig \<times> cint16 list) option" where
  "gps_sample_loop cfg time_now [] s = Some s"
| "gps_sample_loop cfg time_now (i # is) s =
     (case gps_sample cfg time_now i s of
        None \<Rightarrow> None
      | Some s' \<Rightarrow> gps_sample_loop cfg time_now is s')"

text \<open>
  The loop over \<open>active_satellites_\<close>: inactive entries are skipped; the code state of a
  PRN is created on first use and written back; the Doppler is refreshed when the
  ephemeris is valid; the carrier phase is advanced "for continuity" at the end.
\<close>

fun gps_satellites ::
  "GlobalConfig \<Rightarrow> nat \<Rightarrow> real \<Rightarrow> SatelliteConfig list \<Rightarrow> (int \<rightharpoonup> GPSCodeState)
     \<Rightarrow> cint16 list \<Rightarrow> (SatelliteConfig list \<times> (int \<rightharpoonup> GPSCodeState) \<times> cint16 list) option" where
  "gps_satellites cfg sample_count time_now [] cs buffer = Some ([], cs, buffer)"
| "gps_satellites cfg sample_count time_now (sat # sats) cs buffer =
     (if \<not> is_active sat
      then (case gps_satellites cfg sample_count time_now sats cs buffer of
              None \<Rightarrow> None
            | Some (sats', cs', buffer') \<Rightarrow> Some (sat # sats', cs', buffer'))
      else
        let state = (case cs (prn sat) of
                       None \<Rightarrow> gps_initial_code_state (prn sat)
                     | Some st \<Rightarrow> st);
            sat1 = update_doppler time_now sat
        in case gps_sample_loop cfg time_now [0..<sample_count] (state, sat1, buffer) of
             None \<Rightarrow> None
           | Some (state', sat2, buffer') \<Rightarrow>
               let sat3 = update_carrier_phase 1575420000 cfg sample_count sat2
               in (case gps_satellites cfg sample_count time_now sats
                          (cs(prn sat \<mapsto> state')) buffer' of
                     None \<Rightarrow> None
                   | Some (sats', cs', buffer'') \<Rightarrow> Some (sat3 # sats', cs', buffer'')))"

definition gps_generate_chunk ::
  "nat \<Rightarrow> real \<Rightarrow> GpsL1Provider \<Rightarrow> error + (GpsL1Provider \<times> cint16 list)" where
  "gps_generate_chunk sample_count time_now p =
     (if \<not> cdma_is_ready p then Inl NotReady
      else
        case gps_satellites (config p) sample_count time_now (active_satellites p)
               (gps_code_states p) (replicate sample_count (0, 0)) of
          None \<Rightarrow> Inl OutOfBoundsRead
        | Some (sats, cs, buffer) \<Rightarrow>
            let (out, n) = apply_frequency_offset (frequency_offset_hz p) (nco p) buffer
            in Inr (p\<lparr>active_satellites := sats, gps_code_states := cs, nco := n\<rparr>, out))"

section \<open>Galileo E1 provider (cdma_providers.cpp, GalileoE1Provider)\<close>

record GalileoE1Provider = CDMAProviderBase +
  gal_code_states :: "int \<rightharpoonup> GalileoCodeState"
  gal_ephemeris_data :: "int \<rightharpoonup> EphemerisData"

definition GalileoE1Provider_new :: GalileoE1Provider where
  "GalileoE1Provider_new =
     \<lparr>constellation_type = GALILEO, carrier_frequency_hz = 1575420000, frequency_offset_hz = 0,
      configured = False, ephemeris_loaded = False, nco = DigitalNCO_new DEFAULT_SAMPLING_RATE,
      config = GlobalConfig_default, active_satellites = [],
      gal_code_states = Map.empty, gal_ephemeris_data = Map.empty\<rparr>"

definition galileo_load_ephemeris ::
  "rinex_reader \<Rightarrow> string \<Rightarrow> GalileoE1Provider \<Rightarrow> error + GalileoE1Provider" where
  "galileo_load_ephemeris rinex file_path p =
     (case rinex GALILEO file_path of
        None \<Rightarrow> Inl EphemerisLoad
      | Some m \<Rightarrow>
          Inr (p\<lparr>gal_ephemeris_data := m,
                 active_satellites := attach_ephemeris m (active_satellites p),
                 ephemeris_loaded := True\<rparr>))"

text \<open>
  The Galileo sample: as for GPS, with the tiered chip, the sign of the BOC(1,1)
  subcarrier, and the scale 800. This loop does not refresh the Doppler.
\<close>

definition galileo_sample ::
  "GlobalConfig \<Rightarrow> real \<Rightarrow> nat \<Rightarrow> GalileoCodeState \<times> SatelliteConfig \<times> cint16 list
     \<Rightarrow> GalileoCodeState \<times> SatelliteConfig \<times> cint16 list" where
  "galileo_sample cfg time_now i s =
     (case s of (state, sat, buffer) \<Rightarrow>
        let time = time_now + real i / sampling_rate_hz cfg;
            chip_position = time * 1023000;
            primary_chip_index = c_rem (double_to_int32 chip_position) 4092;
            secondary_chip_index = c_rem (c_div primary_chip_index 4092) 25;
            (state', sat') =
              (if primary_chip_index \<noteq> primary_chip_count state
               then (let st1 = state\<lparr>primary_chip_count := primary_chip_index,
                                      secondary_chip_count := secondary_chip_index\<rparr>
                     in (galileo_advance_registers st1,
                         sat\<lparr>code_phase_chips := real (unat (galileo_tiered_chip st1))\<rparr>))
               else (state, sat));
            chip_value = (if code_phase_chips sat' = 1 then 1 else - 1);
            boc_phase_now = 2 * pi * 1023000 * time + real_of_int (boc_phase state');
            boc_subcarrier = cos boc_phase_now;
            boc_modulated_chip = chip_value * (if boc_subcarrier > 0 then 1 else - 1);
            carrier_phase =
              2 * pi * (1575420000 + doppler_hz sat') * time + carrier_phase_rad sat';
            carrier = cos carrier_phase;
            signal_value = boc_modulated_chip * carrier * 800;
            sample = (double_to_int16 signal_value, 0)
        in (state', sat', buffer[i := accumulate_sample (buffer ! i) sample]))"

text \<open>
  \<open>state.boc_phase\<close> is an \<open>int\<close> field: each of the two assignments converts the
  \<open>double\<close> result back to \<open>int\<close>.
\<close>

definition update_boc_phase :: "GlobalConfig \<Rightarrow> nat \<Rightarrow> GalileoCodeState \<Rightarrow> GalileoCodeState" where
  "update_boc_phase cfg sample_count state =
     (let b1 = double_to_int32 (real_of_int (boc_phase state) +
                 2 * pi * 1023000 * real sample_count / sampling_rate_hz cfg);
          b2 = double_to_int32 (c_fmod (real_of_int b1) (2 * pi))
      in state\<lparr>boc_phase := b2\<rparr>)"

fun galileo_satellites ::
  "GlobalConfig \<Rightarrow> nat \<Rightarrow> real \<Rightarrow> SatelliteConfig list \<Rightarrow> (int \<rightharpoonup> GalileoCodeState)
     \<Rightarrow> cint16 list \<Rightarrow> SatelliteConfig list \<times> (int \<rightharpoonup> GalileoCodeState) \<times> cint16 list" where
  "galileo_satellites cfg sample_count time_now [] cs buffer = ([], cs, buffer)"
| "galileo_satellites cfg sample_count time_now (sat # sats) cs buffer =
     (if \<not> is_active sat
      then (let (sats', cs', buffer') = galileo_satellites cfg sample_count time_now sats cs buffer
            in (sat # sats', cs', buffer'))
      else
        let state = (case cs (prn sat) of
                       None \<Rightarrow> galileo_initial_code_state (prn sat)
                     | Some st \<Rightarrow> st);
            (state', sat2, buffer') =
              fold (galileo_sample cfg time_now) [0..<sample_count] (state, sat, buffer);
            sat3 = update_carrier_phase 1575420000 cfg sample_count sat2;
            state'' = update_boc_phase cfg sample_count state';
            (sats', cs', buffer'') =
              galileo_satellites cfg sample_count time_now sats (cs(prn sat \<mapsto> state'')) buffer'
        in (sat3 # sats', cs', buffer''))"

definition galileo_generate_chunk ::
  "nat \<Rightarrow> real \<Rightarrow> GalileoE1Provider \<Rightarrow> error + (GalileoE1Provider \<times> cint16 list)" where
  "galileo_generate_chunk sample_count time_now p =
     (if \<not> cdma_is_ready p then Inl NotReady
      else
        let (sats, cs, buffer) =
              galileo_satellites (config p) sample_count time_now (active_satellites p)
                (gal_code_states p) (replicate sample_count (0, 0));
            (out, n) = apply_frequency_offset (frequency_offset_hz p) (nco p) buffer
        in Inr (p\<lparr>active_satellites := sats, gal_code_states := cs, nco := n\<rparr>, out))"

section \<open>BeiDou B1I provider (cdma_providers.cpp, BeidouB1Provider)\<close>

record BeidouB1Provider = CDMAProviderBase +
  bds_code_states :: "int \<rightharpoonup> BeidouCodeState"
  bds_ephemeris_data :: "int \<rightharpoonup> EphemerisData"

definition BeidouB1Provider_new :: BeidouB1Provider where
  "BeidouB1Provider_new =
     \<lparr>constellation_type = BEIDOU, carrier_frequency_hz = 1561098000, frequency_offset_hz = 0,
      configured = False, ephemeris_loaded = False, nco = DigitalNCO_new DEFAULT_SAMPLING_RATE,
      config = GlobalConfig_default, active_satellites = [],
      bds_code_states = Map.empty, bds_ephemeris_data = Map.empty\<rparr>"

definition beidou_load_ephemeris ::
  "rinex_reader \<Rightarrow> string \<Rightarrow> BeidouB1Provider \<Rightarrow> error + BeidouB1Provider" where
  "beidou_load_ephemeris rinex file_path p =
     (case rinex BEIDOU file_path of
        None \<Rightarrow> Inl EphemerisLoad
      | Some m \<Rightarrow>
          Inr (p\<lparr>bds_ephemeris_data := m,
                 active_satellites := attach_ephemeris m (active_satellites p),
                 ephemeris_loaded := True\<rparr>))"

definition beidou_sample ::
  "GlobalConfig \<Rightarrow> real \<Rightarrow> nat \<Rightarrow> BeidouCodeState \<times> SatelliteConfig \<times> cint16 list
     \<Rightarrow> BeidouCodeState \<times> SatelliteConfig \<times> cint16 list" where
  "beidou_sample cfg time_now i s =
     (case s of (state, sat, buffer) \<Rightarrow>
        let time = time_now + real i / sampling_rate_hz cfg;
            chip_position = time * 2046000;
            chip_index = c_rem (double_to_int32 chip_position) 2046;
            (state', sat') =
              (if chip_index \<noteq> bds_chip_count state
               then (let st1 = state\<lparr>bds_chip_count := chip_index\<rparr>
                     in (beidou_advance_registers st1,
                         sat\<lparr>code_phase_chips := real (unat (beidou_css_chip (prn sat) st1))\<rparr>))
               else (state, sat));
            chip_value = (if code_phase_chips sat' = 1 then 1 else - 1);
            carrier_phase =
              2 * pi * (1561098000 + doppler_hz sat') * time + carrier_phase_rad sat';
            carrier = cos carrier_phase;
            signal_value = chip_value * carrier * 900;
            sample = (double_to_int16 signal_value, 0)
        in (state', sat', buffer[i := accumulate_sample (buffer ! i) sample]))"

fun beidou_satellites ::
  "GlobalConfig \<Rightarrow> nat \<Rightarrow> real \<Rightarrow> SatelliteConfig list \<Rightarrow> (int \<rightharpoonup> BeidouCodeState)
     \<Rightarrow> cint16 list \<Rightarrow> SatelliteConfig list \<times> (int \<rightharpoonup> BeidouCodeState) \<times> cint16 list" where
  "beidou_satellites cfg sample_count time_now [] cs buffer = ([], cs, buffer)"
| "beidou_satellites cfg sample_count time_now (sat # sats) cs buffer =
     (if \<not> is_active sat
      then (let (sats', cs', buffer') = beidou_satellites cfg sample_count time_now sats cs buffer
            in (sat # sats', cs', buffer'))
      else
        let state = (case cs (prn sat) of
                       None \<Rightarrow> beidou_initial_code_state (prn sat)
                     | Some st \<Rightarrow> st);
            (state', sat2, buffer') =
              fold (beidou_sample cfg time_now) [0..<sample_count] (state, sat, buffer);
            sat3 = update_carrier_phase 1561098000 cfg sample_count sat2;
            (sats', cs', buffer'') =
              beidou_satellites cfg sample_count time_now sats (cs(prn sat \<mapsto> state')) buffer'
        in (sat3 # sats', cs', buffer''))"

text \<open>
  The unmixed buffer of a chunk, and the chunk: the buffer is returned as it is unless
  the absolute frequency offset exceeds 1 Hz.
\<close>

definition beidou_generate_chunk ::
  "nat \<Rightarrow> real \<Rightarrow> BeidouB1Provider \<Rightarrow> error + (BeidouB1Provider \<times> cint16 list)" where
  "beidou_generate_chunk sample_count time_now p =
     (if \<not> cdma_is_ready p then Inl NotReady
      else
        let (sats, cs, buffer) =
              beidou_satellites (config p) sample_count time_now (active_satellites p)
                (bds_code_states p) (replicate sample_count (0, 0));
            (out, n) = apply_frequency_offset (frequency_offset_hz p) (nco p) buffer
        in Inr (p\<lparr>active_satellites := sats, bds_code_states := cs, nco := n\<rparr>, out))"

section \<open>GLONASS L1 FDMA provider (glonass_provider.cpp)\<close>

record GlonassChannel =
  chan_prn :: int
  channel_number :: int
  chan_frequency_hz :: real
  chan_delta_f_hz :: real
  chan_power_dbm :: real
  chan_doppler_hz :: real
  phase_rad :: real
  chan_is_active :: bool

definition GlonassChannel_default :: GlonassChannel where
  "GlonassChannel_default =
     \<lparr>chan_prn = - 1, channel_number = 0, chan_frequency_hz = 1602000000, chan_delta_f_hz = 0,
      chan_power_dbm = - 130, chan_doppler_hz = 0, phase_rad = 0, chan_is_active = False\<rparr>"

record GlonassChannelGenerator =
  gen_channel_number :: int
  gen_frequency_hz :: real
  gen_sample_rate_hz :: real
  delta_f_hz :: real
  gen_phase_increment :: real
  current_phase :: real

definition PHASE_TABLE_SIZE :: nat where
  "PHASE_TABLE_SIZE = 8192"

text \<open>
  The table of the constructor: entry \<open>i\<close> holds the cosine and the sine of
  \<open>2.0 * M_PI * i / PHASE_TABLE_SIZE\<close>, each narrowed to \<open>float\<close>.
\<close>

definition phase_table :: "nat \<Rightarrow> real \<times> real" where
  "phase_table i =
     (let angle = to_double (to_double (to_double (2 * M_PI) * real i) / real PHASE_TABLE_SIZE)
      in (to_float (libm_cos angle), to_float (libm_sin angle)))"

definition GlonassChannelGenerator_new :: "real \<Rightarrow> GlonassChannelGenerator" where
  "GlonassChannelGenerator_new fs =
     \<lparr>gen_channel_number = 0, gen_frequency_hz = 1602000000, gen_sample_rate_hz = fs,
      delta_f_hz = 0, gen_phase_increment = 0, current_phase = 0\<rparr>"

text \<open>\<open>GlonassChannelGenerator::configure(channel_number, base_frequency, power_dbm)\<close>\<close>

definition generator_configure ::
  "int \<Rightarrow> real \<Rightarrow> real \<Rightarrow> GlonassChannelGenerator \<Rightarrow> GlonassChannelGenerator" where
  "generator_configure k base_frequency pwr g =
     (let f = to_double (base_frequency + to_double (real_of_int k * 562500))
      in g\<lparr>gen_channel_number := k, gen_frequency_hz := f,
           delta_f_hz := to_double (f - base_frequency),
           gen_phase_increment :=
             to_double (to_double (to_double (2 * M_PI) * f) / gen_sample_rate_hz g)\<rparr>)"

text \<open>
  \<open>generate_signal\<close>, one sample: the base BPSK value is the sign of a cosine at the chip
  rate (the source marks it a placeholder; no code register is involved), rotated by
  the table entry for \<open>2 pi delta_f t + current_phase\<close> and scaled by \<open>0.7f\<close>.
\<close>

definition glonass_bpsk_signal :: "real \<Rightarrow> int" where
  "glonass_bpsk_signal time =
     (let chip_phase = to_double (to_double (to_double (2 * M_PI) * 511000) * time)
      in if libm_cos chip_phase > 0 then 1000 else - 1000)"

definition glonass_rotation_phase :: "GlonassChannelGenerator \<Rightarrow> real \<Rightarrow> real" where
  "glonass_rotation_phase g time =
     to_double (to_double (to_double (to_double (2 * M_PI) * delta_f_hz g) * time)
                + current_phase g)"

definition glonass_table_index :: "real \<Rightarrow> nat" where
  "glonass_table_index rotation_phase =
     double_to_size_t
       (to_double (to_double (rotation_phase * real PHASE_TABLE_SIZE) / to_double (2 * M_PI)))
       mod PHASE_TABLE_SIZE"

definition glonass_sample_time :: "GlonassChannelGenerator \<Rightarrow> real \<Rightarrow> nat \<Rightarrow> real" where
  "glonass_sample_time g time_start i =
     (let sample_time = to_double (1 / gen_sample_rate_hz g)
      in to_double (time_start + to_double (real i * sample_time)))"

definition glonass_signal_sample :: "GlonassChannelGenerator \<Rightarrow> real \<Rightarrow> nat \<Rightarrow> cint16" where
  "glonass_signal_sample g time_start i =
     (let time = glonass_sample_time g time_start i;
          bpsk_signal = glonass_bpsk_signal time;
          rotation_phase = glonass_rotation_phase g time;
          table_index = glonass_table_index rotation_phase;
          rotation = phase_table table_index;
          mixed_signal = complex_float_mult (real_of_int bpsk_signal, 0) rotation;
          SCALE_FACTOR = to_float (7 / 10)
      in (double_to_int16 (to_float (fst mixed_signal * SCALE_FACTOR)),
          double_to_int16 (to_float (snd mixed_signal * SCALE_FACTOR))))"

definition generate_signal ::
  "nat \<Rightarrow> real \<Rightarrow> GlonassChannelGenerator \<Rightarrow> cint16 list \<times> GlonassChannelGenerator" where
  "generate_signal sample_count time_start g =
     (let sample_time = to_double (1 / gen_sample_rate_hz g);
          out = map (glonass_signal_sample g time_start) [0..<sample_count];
          ph = to_double (current_phase g +
                 to_double (to_double (to_double (to_double (2 * M_PI) * delta_f_hz g)
                                       * real sample_count) * sample_time))
      in (out, g\<lparr>current_phase :=
                   (if ph \<ge> to_double (2 * M_PI) then to_double (ph - to_double (2 * M_PI))
                    else ph)\<rparr>))"

record GlonassL1Provider =
  glo_constellation_type :: ConstellationType
  glo_carrier_frequency_hz :: real
  glo_center_frequency_hz :: real
  glo_configured :: bool
  glo_ephemeris_loaded :: bool
  channels :: "GlonassChannel list"
  channel_generators :: "GlonassChannelGenerator list"
  satellite_buffers :: "cint16 list list"
  glo_config :: GlobalConfig

text \<open>The constructor: fourteen channels \<open>k = -7 .. 6\<close> and fourteen generators.\<close>

definition GlonassL1Provider_new :: GlonassL1Provider where
  "GlonassL1Provider_new =
     \<lparr>glo_constellation_type = GLONASS, glo_carrier_frequency_hz = 1602000000,
      glo_center_frequency_hz = 1582000000, glo_configured = False,
      glo_ephemeris_loaded = False,
      channels = map (\<lambda>k. GlonassChannel_default
                       \<lparr>chan_prn := k + 8, channel_number := k,
                        chan_frequency_hz := 1602000000 + real_of_int k * 562500\<rparr>) [- 7..6],
      channel_generators = replicate 14 (GlonassChannelGenerator_new DEFAULT_SAMPLING_RATE),
      satellite_buffers = [], glo_config = GlobalConfig_default\<rparr>"

text \<open>
  \<open>avx2_sum_channels\<close>: for each sample the real and imaginary parts of all satellite
  buffers are added in \<open>int32_t\<close> (fourteen 16-bit values cannot overflow it); the sum is
  narrowed with \<open>static_cast<int16_t>\<close> first and the clamp is applied to the narrowed
  value. With no satellite buffer the output is left as it is.
\<close>

definition sum_channel_sample :: "cint16 list list \<Rightarrow> nat \<Rightarrow> cint16" where
  "sum_channel_sample bufs i =
     (let sum_real = fold (\<lambda>buffer acc. acc + fst (buffer ! i)) bufs 0;
          sum_imag = fold (\<lambda>buffer acc. acc + snd (buffer ! i)) bufs 0
      in (max (- 32768) (min 32767 (int32_to_int16 sum_real)),
          max (- 32768) (min 32767 (int32_to_int16 sum_imag))))"

definition avx2_sum_channels :: "cint16 list list \<Rightarrow> cint16 list \<Rightarrow> nat \<Rightarrow> cint16 list" where
  "avx2_sum_channels bufs output sample_count =
     (if bufs = [] then output
      else map (sum_channel_sample bufs) [0..<sample_count])"

text \<open>
  The rotation of one sample by the phase \<open>ph\<close>, shared by \<open>apply_doppler_shift\<close> and
  \<open>apply_master_lo_offset\<close>: the cosine and the sine are narrowed to \<open>float\<close>, the sample is
  multiplied as a \<open>std::complex<float>\<close>, and each part is converted to \<open>int16_t\<close>.
\<close>

definition rotate_sample :: "cint16 \<Rightarrow> real \<Rightarrow> cint16" where
  "rotate_sample s ph =
     (let rotation = (to_float (libm_cos ph), to_float (libm_sin ph));
          rotated = complex_float_mult (real_of_int (fst s), real_of_int (snd s)) rotation
      in (double_to_int16 (fst rotated), double_to_int16 (snd rotated)))"

definition apply_doppler_shift ::
  "GlobalConfig \<Rightarrow> cint16 list \<Rightarrow> real \<Rightarrow> real \<Rightarrow> cint16 list" where
  "apply_doppler_shift cfg buffer doppler time_start =
     map (\<lambda>(i, s).
            let time = to_double (time_start + to_double (real i / sampling_rate_hz cfg))
            in rotate_sample s (to_double (to_double (to_double (2 * M_PI) * doppler) * time)))
         (enumerate 0 buffer)"

definition apply_master_lo_offset :: "GlonassL1Provider \<Rightarrow> cint16 list \<Rightarrow> cint16 list" where
  "apply_master_lo_offset p buffer =
     (let overall_offset =
            to_double (glo_center_frequency_hz p - center_frequency_hz (glo_config p))
      in if \<bar>overall_offset\<bar> < 1 then buffer
         else
           let ph_inc = to_double (to_double (to_double (2 * M_PI) * overall_offset)
                                   / sampling_rate_hz (glo_config p))
           in map (\<lambda>(i, s). rotate_sample s (to_double (ph_inc * real i)))
                  (enumerate 0 buffer))"

text \<open>\<open>vector::resize\<close>: existing entries are kept, new ones are value-initialised.\<close>

definition resize :: "nat \<Rightarrow> 'a \<Rightarrow> 'a list \<Rightarrow> 'a list" where
  "resize n z xs = take n xs @ replicate (n - length xs) z"

text \<open>
  The loop over the fourteen channels: an active channel configures its generator,
  writes its buffer and, when its Doppler exceeds 1 Hz, rotates it. The result also
  counts the active channels.
\<close>

fun glonass_channel_loop ::
  "GlonassL1Provider \<Rightarrow> nat \<Rightarrow> real \<Rightarrow> GlonassChannel list \<Rightarrow> GlonassChannelGenerator list
     \<Rightarrow> cint16 list list \<Rightarrow> GlonassChannelGenerator list \<times> cint16 list list \<times> nat" where
  "glonass_channel_loop p sample_count time_now (c # cs) (g # gs) (b # bs) =
     (let (gs', bs', k) = glonass_channel_loop p sample_count time_now cs gs bs
      in if \<not> chan_is_active c then (g # gs', b # bs', k)
         else
           let g1 = generator_configure (channel_number c) (glo_carrier_frequency_hz p)
                      (chan_power_dbm c) g;
               (b1, g2) = generate_signal sample_count time_now g1;
               b2 = (if \<bar>chan_doppler_hz c\<bar> > 1
                     then apply_doppler_shift (glo_config p) b1 (chan_doppler_hz c) time_now
                     else b1)
           in (g2 # gs', b2 # bs', Suc k))"
| "glonass_channel_loop p sample_count time_now cs gs bs = (gs, bs, 0)"

definition glonass_is_ready :: "GlonassL1Provider \<Rightarrow> bool" where
  "glonass_is_ready p \<longleftrightarrow>
     glo_configured p \<and> glo_ephemeris_loaded p \<and> list_ex chan_is_active (channels p)"

definition glonass_generate_chunk ::
  "nat \<Rightarrow> real \<Rightarrow> GlonassL1Provider \<Rightarrow> error + (GlonassL1Provider \<times> cint16 list)" where
  "glonass_generate_chunk sample_count time_now p =
     (if \<not> glonass_is_ready p then Inl NotReady
      else
        let buffer = replicate sample_count (0, 0);
            bufs0 = map (resize sample_count (0, 0)) (resize 14 [] (satellite_buffers p));
            (gs, bufs, active_channels) =
              glonass_channel_loop p sample_count time_now (channels p)
                (channel_generators p) bufs0;
            p' = p\<lparr>channel_generators := gs, satellite_buffers := bufs\<rparr>
        in if active_channels = 0 then Inr (p', buffer)
           else Inr (p', apply_master_lo_offset p'
                           (avx2_sum_channels bufs buffer sample_count)))"

text \<open>\<open>load_ephemeris\<close> reads nothing: it activates the first eight channels.\<close>

definition activate_default_channels :: "GlonassChannel list \<Rightarrow> GlonassChannel list" where
  "activate_default_channels cs =
     map (\<lambda>(i, c). if i < 8
                    then c\<lparr>chan_is_active := True, chan_prn := int i + 1, chan_power_dbm := - 128\<rparr>
                    else c) (enumerate 0 cs)"

definition glonass_load_ephemeris :: "string \<Rightarrow> GlonassL1Provider \<Rightarrow> GlonassL1Provider" where
  "glonass_load_ephemeris file_path p =
     p\<lparr>channels := activate_default_channels (channels p), glo_ephemeris_loaded := True\<rparr>"

definition glonass_set_frequency_offset :: "real \<Rightarrow> GlonassL1Provider \<Rightarrow> GlonassL1Provider" where
  "glonass_set_frequency_offset offset_hz p =
     p\<lparr>glo_center_frequency_hz := glo_carrier_frequency_hz p + offset_hz\<rparr>"

definition glonass_configure :: "GlobalConfig \<Rightarrow> GlonassL1Provider \<Rightarrow> GlonassL1Provider" where
  "glonass_configure cfg p =
     p\<lparr>glo_config := cfg,
       channel_generators :=
         map (\<lambda>g. GlonassChannelGenerator_new (sampling_rate_hz cfg)) (channel_generators p),
       glo_configured := True\<rparr>"

section \<open>The provider interface (quad_gnss_interface.h, ISatelliteConstellation)\<close>

text \<open>
  The virtual calls, dispatched on the class of the provider. The four classes are the
  ones the factories of the providers build; the dummy \<open>TestConstellation\<close> of the
  interface test is not a provider of the engine and is left out.
\<close>

datatype Provider =
  Gps GpsL1Provider | Galileo GalileoE1Provider | Beidou BeidouB1Provider
  | Glonass GlonassL1Provider

fun get_constellation_type :: "Provider \<Rightarrow> ConstellationType" where
  "get_constellation_type (Gps p) = constellation_type p"
| "get_constellation_type (Galileo p) = constellation_type p"
| "get_constellation_type (Beidou p) = constellation_type p"
| "get_constellation_type (Glonass p) = glo_constellation_type p"

fun get_carrier_frequency :: "Provider \<Rightarrow> real" where
  "get_carrier_frequency (Gps p) = carrier_frequency_hz p"
| "get_carrier_frequency (Galileo p) = carrier_frequency_hz p"
| "get_carrier_frequency (Beidou p) = carrier_frequency_hz p"
| "get_carrier_frequency (Glonass p) = glo_carrier_frequency_hz p"

fun set_frequency_offset :: "real \<Rightarrow> Provider \<Rightarrow> Provider" where
  "set_frequency_offset x (Gps p) = Gps (cdma_set_frequency_offset x p)"
| "set_frequency_offset x (Galileo p) = Galileo (cdma_set_frequency_offset x p)"
| "set_frequency_offset x (Beidou p) = Beidou (cdma_set_frequency_offset x p)"
| "set_frequency_offset x (Glonass p) = Glonass (glonass_set_frequency_offset x p)"

fun configure :: "GlobalConfig \<Rightarrow> Provider \<Rightarrow> Provider" where
  "configure cfg (Gps p) = Gps (cdma_configure cfg p)"
| "configure cfg (Galileo p) = Galileo (cdma_configure cfg p)"
| "configure cfg (Beidou p) = Beidou (cdma_configure cfg p)"
| "configure cfg (Glonass p) = Glonass (glonass_configure cfg p)"

fun load_ephemeris :: "rinex_reader \<Rightarrow> string \<Rightarrow> Provider \<Rightarrow> error + Provider" where
  "load_ephemeris rinex path (Gps p) = map_sum id Gps (gps_load_ephemeris rinex path p)"
| "load_ephemeris rinex path (Galileo p) =
     map_sum id Galileo (galileo_load_ephemeris rinex path p)"
| "load_ephemeris rinex path (Beidou p) = map_sum id Beidou (beidou_load_ephemeris rinex path p)"
| "load_ephemeris rinex path (Glonass p) = Inr (Glonass (glonass_load_ephemeris path p))"

fun is_ready :: "Provider \<Rightarrow> bool" where
  "is_ready (Gps p) = cdma_is_ready p"
| "is_ready (Galileo p) = cdma_is_ready p"
| "is_ready (Beidou p) = cdma_is_ready p"
| "is_ready (Glonass p) = glonass_is_ready p"

fun generate_chunk :: "nat \<Rightarrow> real \<Rightarrow> Provider \<Rightarrow> error + (Provider \<times> cint16 list)" where
  "generate_chunk n t (Gps p) = map_sum id (map_prod Gps id) (gps_generate_chunk n t p)"
| "generate_chunk n t (Galileo p) =
     map_sum id (map_prod Galileo id) (galileo_generate_chunk n t p)"
| "generate_chunk n t (Beidou p) = map_sum id (map_prod Beidou id) (beidou_generate_chunk n t p)"
| "generate_chunk n t (Glonass p) =
     map_sum id (map_prod Glonass id) (glonass_generate_chunk n t p)"

text \<open>What the readiness invariant of the specification speaks of, read off the state.\<close>

fun is_configured :: "Provider \<Rightarrow> bool" where
  "is_configured (Gps p) = configured p"
| "is_configured (Galileo p) = configured p"
| "is_configured (Beidou p) = configured p"
| "is_configured (Glonass p) = glo_configured p"

fun is_ephemeris_loaded :: "Provider \<Rightarrow> bool" where
  "is_ephemeris_loaded (Gps p) = ephemeris_loaded p"
| "is_ephemeris_loaded (Galileo p) = ephemeris_loaded p"
| "is_ephemeris_loaded (Beidou p) = ephemeris_loaded p"
| "is_ephemeris_loaded (Glonass p) = glo_ephemeris_loaded p"

fun has_active_satellite :: "Provider \<Rightarrow> bool" where
  "has_active_satellite (Gps p) = list_ex is_active (active_satellites p)"
| "has_active_satellite (Galileo p) = list_ex is_active (active_satellites p)"
| "has_active_satellite (Beidou p) = list_ex is_active (active_satellites p)"
| "has_active_satellite (Glonass p) = list_ex chan_is_active (channels p)"

text \<open>
  A caller's operations on a provider. A call that throws leaves the provider as it
  was: each throw of the source comes before the first assignment.
\<close>

datatype ProviderOp =
  Configure GlobalConfig | LoadEphemeris string | SetFrequencyOffset real
  | GenerateChunk nat real

fun provider_step :: "rinex_reader \<Rightarrow> Provider \<Rightarrow> ProviderOp \<Rightarrow> Provider" where
  "provider_step rinex p (Configure cfg) = configure cfg p"
| "provider_step rinex p (LoadEphemeris path) =
     (case load_ephemeris rinex path p of Inl e \<Rightarrow> p | Inr p' \<Rightarrow> p')"
| "provider_step rinex p (SetFrequencyOffset x) = set_frequency_offset x p"
| "provider_step rinex p (GenerateChunk n t) =
     (case generate_chunk n t p of Inl e \<Rightarrow> p | Inr (p', out) \<Rightarrow> p')"

definition fresh_providers :: "Provider list" where
  "fresh_providers =
     [Gps GpsL1Provider_new, Galileo GalileoE1Provider_new, Beidou BeidouB1Provider_new,
      Glonass GlonassL1Provider_new]"

section \<open>Signal orchestrator (quad_gnss_test.cpp, SignalOrchestrator)\<close>

record SignalOrchestrator =
  constellations :: "Provider list"
  orch_config :: GlobalConfig
  initialized :: bool

definition SignalOrchestrator_new :: "GlobalConfig \<Rightarrow> SignalOrchestrator" where
  "SignalOrchestrator_new cfg = \<lparr>constellations = [], orch_config = cfg, initialized = False\<rparr>"

text \<open>\<open>add_constellation\<close>: the argument is a \<open>unique_ptr\<close>, \<open>None\<close> when it is null.\<close>

definition add_constellation ::
  "Provider option \<Rightarrow> SignalOrchestrator \<Rightarrow> error + SignalOrchestrator" where
  "add_constellation c orch =
     (case c of
        None \<Rightarrow> Inl NullInput
      | Some prov \<Rightarrow> Inr (orch\<lparr>constellations := constellations orch @ [prov]\<rparr>))"

definition validate_configuration :: "SignalOrchestrator \<Rightarrow> bool" where
  "validate_configuration orch \<longleftrightarrow>
     sampling_rate_hz (orch_config orch) > 0 \<and>
     center_frequency_hz (orch_config orch) > 0 \<and>
     active_constellations (orch_config orch) \<noteq> []"

text \<open>
  \<open>calculate_frequency_offsets\<close>: the first loop finds \<open>min_offset\<close>, starting from 0;
  the second sets each provider's offset to \<open>carrier - center - min_offset\<close>.
\<close>

definition min_frequency_offset :: "real \<Rightarrow> Provider list \<Rightarrow> real" where
  "min_frequency_offset center_freq cs =
     fold (\<lambda>c min_offset. min min_offset (get_carrier_frequency c - center_freq)) cs 0"

definition calculate_frequency_offsets :: "SignalOrchestrator \<Rightarrow> SignalOrchestrator" where
  "calculate_frequency_offsets orch =
     (let center_freq = center_frequency_hz (orch_config orch);
          min_offset = min_frequency_offset center_freq (constellations orch)
      in orch\<lparr>constellations :=
                map (\<lambda>c. set_frequency_offset
                            (get_carrier_frequency c - center_freq - min_offset) c)
                    (constellations orch)\<rparr>)"

text \<open>
  The loop of \<open>initialize\<close> over the providers: \<open>load_ephemeris\<close> when the map has a path
  for the provider's constellation, then \<open>configure\<close>. When a load throws, the providers
  handled before keep their changes and the rest are untouched.
\<close>

fun initialize_providers ::
  "rinex_reader \<Rightarrow> (ConstellationType \<rightharpoonup> string) \<Rightarrow> GlobalConfig \<Rightarrow> Provider list
     \<Rightarrow> error option \<times> Provider list" where
  "initialize_providers rinex paths cfg [] = (None, [])"
| "initialize_providers rinex paths cfg (c # cs) =
     (case (case paths (get_constellation_type c) of
              Some path \<Rightarrow> load_ephemeris rinex path c
            | None \<Rightarrow> Inr c) of
        Inl e \<Rightarrow> (Some e, c # cs)
      | Inr c1 \<Rightarrow>
          let c2 = configure cfg c1;
              (r, cs') = initialize_providers rinex paths cfg cs
          in (r, c2 # cs'))"

text \<open>
  \<open>initialize\<close>: the result pairs the exception, if one was thrown, with the state the
  orchestrator is left in.
\<close>

definition initialize ::
  "rinex_reader \<Rightarrow> (ConstellationType \<rightharpoonup> string) \<Rightarrow> SignalOrchestrator
     \<Rightarrow> error option \<times> SignalOrchestrator" where
  "initialize rinex ephemeris_file_paths orch =
     (if \<not> validate_configuration orch then (Some ConfigInvalid, orch)
      else
        let orch1 = calculate_frequency_offsets orch;
            (r, cs) = initialize_providers rinex ephemeris_file_paths (orch_config orch1)
                        (constellations orch1)
        in case r of
             Some e \<Rightarrow> (Some e, orch1\<lparr>constellations := cs\<rparr>)
           | None \<Rightarrow> (None, orch1\<lparr>constellations := cs, initialized := True\<rparr>))"

text \<open>\<open>prevent_overflow\<close>: each part of each accumulator entry is clamped to the int16 range.\<close>

definition prevent_overflow :: "(int \<times> int) list \<Rightarrow> (int \<times> int) list" where
  "prevent_overflow accumulator =
     map (\<lambda>(re, im). (max (- 32768) (min 32767 re), max (- 32768) (min 32767 im)))
         accumulator"

text \<open>
  The loop of \<open>mix_all_signals\<close> over the providers, in registration order: a ready
  provider generates into a temporary buffer that is added to the 32-bit accumulator
  (the additions are exact as long as fewer than 65536 providers are registered).
  An exception of a provider ends the loop.
\<close>

fun mix_providers ::
  "nat \<Rightarrow> real \<Rightarrow> Provider list \<Rightarrow> (int \<times> int) list
     \<Rightarrow> error + (Provider list \<times> (int \<times> int) list)" where
  "mix_providers sample_count time_now [] accumulator = Inr ([], accumulator)"
| "mix_providers sample_count time_now (c # cs) accumulator =
     (if is_ready c
      then (case generate_chunk sample_count time_now c of
              Inl e \<Rightarrow> Inl e
            | Inr (c', constellation_signal) \<Rightarrow>
                (case mix_providers sample_count time_now cs
                        (map2 (\<lambda>a s. (fst a + fst s, snd a + snd s))
                              accumulator constellation_signal) of
                   Inl e \<Rightarrow> Inl e
                 | Inr (cs', acc') \<Rightarrow> Inr (c' # cs', acc')))
      else (case mix_providers sample_count time_now cs accumulator of
              Inl e \<Rightarrow> Inl e
            | Inr (cs', acc') \<Rightarrow> Inr (c # cs', acc')))"

text \<open>
  \<open>mix_all_signals(buffer, sample_count, time_now)\<close>: \<open>buffer\<close> is \<open>None\<close> for a null
  pointer. The result is the chunk written to the buffer.
\<close>

definition mix_all_signals ::
  "cint16 list option \<Rightarrow> int \<Rightarrow> real \<Rightarrow> SignalOrchestrator
     \<Rightarrow> error + (SignalOrchestrator \<times> cint16 list)" where
  "mix_all_signals buffer sample_count time_now orch =
     (if \<not> initialized orch \<or> buffer = None \<or> sample_count \<le> 0 then Inl InvalidParameters
      else
        case mix_providers (nat sample_count) time_now (constellations orch)
               (replicate (nat sample_count) (0, 0)) of
          Inl e \<Rightarrow> Inl e
        | Inr (cs, accumulator) \<Rightarrow>
            Inr (orch\<lparr>constellations := cs\<rparr>,
                 map (\<lambda>(re, im). (int32_to_int16 re, int32_to_int16 im))
                     (prevent_overflow accumulator)))"

definition orchestrator_is_ready :: "SignalOrchestrator \<Rightarrow> bool" where
  "orchestrator_is_ready orch \<longleftrightarrow> initialized orch \<and> list_all is_ready (constellations orch)"

section \<open>Observations used by the properties\<close>


text \<open>
  The state invariant behind the readiness property: the class tag is the one its
  constructor set, and a configured CDMA provider has an active satellite.
\<close>

fun provider_invariant :: "Provider \<Rightarrow> bool" where
  "provider_invariant (Gps p) \<longleftrightarrow>
     constellation_type p = GPS \<and> (configured p \<longrightarrow> list_ex is_active (active_satellites p))"
| "provider_invariant (Galileo p) \<longleftrightarrow>
     constellation_type p = GALILEO \<and>
     (configured p \<longrightarrow> list_ex is_active (active_satellites p))"
| "provider_invariant (Beidou p) \<longleftrightarrow>
     constellation_type p = BEIDOU \<and> (configured p \<longrightarrow> list_ex is_active (active_satellites p))"
| "provider_invariant (Glonass p) \<longleftrightarrow> True"

text \<open>
  Concrete states of the evaluated cases. \<open>cfg_6MHz\<close> is a configuration with the sample
  rate 6.0016 MHz, at which the GPS carrier advances by exactly \<open>525 pi\<close> per sample;
  \<open>gps_loaded\<close> is a GPS provider after \<open>configure(cfg_6MHz)\<close> and a \<open>load_ephemeris\<close> of
  a file without records. \<open>beidou_centred\<close> is the BeiDou provider that \<open>initialize\<close>
  leaves behind when the centre frequency is the BeiDou carrier and the ephemeris file
  has no records.
\<close>

definition cfg_6MHz :: GlobalConfig where
  "cfg_6MHz =
     \<lparr>sampling_rate_hz = 6001600, center_frequency_hz = 1582000000,
      active_constellations = [GPS]\<rparr>"

definition gps_loaded :: GpsL1Provider where
  "gps_loaded =
     (cdma_configure cfg_6MHz GpsL1Provider_new)
       \<lparr>gps_ephemeris_data := Map.empty,
        active_satellites := default_satellites 32 (- 130) 8,
        ephemeris_loaded := True\<rparr>"










section \<open>Evaluation rules\<close>

text \<open>Unfolding the recursive generators one step per numeral.\<close>

lemma gps_state_after_numeral:
  "gps_state_after pn (numeral k) = gps_advance_registers (gps_state_after pn (pred_numeral k))"
  by (simp add: numeral_eq_Suc)

lemma gps_balance_from_numeral:
  "gps_balance_from pn (numeral k) st =
     (case gps_gold_chip pn st of
        None \<Rightarrow> 0
      | Some chip \<Rightarrow> bipolar chip + gps_balance_from pn (pred_numeral k) (gps_advance_registers st))"
  by (simp add: numeral_eq_Suc)

lemma galileo_state_after_numeral:
  "galileo_state_after pn (numeral k) =
     galileo_advance_registers (galileo_state_after pn (pred_numeral k))"
  by (simp add: numeral_eq_Suc)

section \<open>Rounded arithmetic\<close>

text \<open>
  \<open>binary_exponent\<close> is the exponent of its argument, and only it is.
\<close>

lemma binary_exponent_bounds:
  assumes "x \<noteq> 0"
  shows "2 powi (binary_exponent x) \<le> \<bar>x\<bar> \<and> \<bar>x\<bar> < 2 powi (binary_exponent x + 1)"
proof (cases "1 \<le> \<bar>x\<bar>")
  case True
  define n where "n = nat \<lfloor>\<bar>x\<bar>\<rfloor>"
  have n1: "1 \<le> n" using True by (simp add: n_def le_nat_iff le_floor_iff)
  then have b: "2 ^ (floorlog 2 n - 1) \<le> n \<and> n < 2 ^ floorlog 2 n"
    using floorlog_bounds[of n 2] by simp
  have fl: "1 \<le> floorlog 2 n" using n1 by (simp add: floorlog_def)
  have e: "binary_exponent x = int (floorlog 2 n) - 1"
    using True by (simp add: binary_exponent_def n_def)
  have "real n = of_int \<lfloor>\<bar>x\<bar>\<rfloor>"
    unfolding n_def by simp
  then have nx: "real n \<le> \<bar>x\<bar>" "\<bar>x\<bar> < real n + 1"
    by linarith+
  have "int (floorlog 2 n) - 1 = int (floorlog 2 n - 1)" using fl by simp
  then have p1: "(2::real) powi (binary_exponent x) = 2 ^ (floorlog 2 n - 1)"
    using e by (simp del: of_nat_diff)
  have p2: "(2::real) powi (binary_exponent x + 1) = 2 ^ floorlog 2 n"
    using e by simp
  have "(2::real) ^ (floorlog 2 n - 1) \<le> real n"
    using b by (metis of_nat_le_iff of_nat_numeral of_nat_power)
  moreover have "real n + 1 \<le> 2 ^ floorlog 2 n"
  proof -
    have "n + 1 \<le> 2 ^ floorlog 2 n" using b by simp
    then have "real (n + 1) \<le> real (2 ^ floorlog 2 n)" by (rule of_nat_mono)
    then show ?thesis by simp
  qed
  ultimately show ?thesis using nx p1 p2 by linarith
next
  case False
  then have x1: "\<bar>x\<bar> < 1" by simp
  have x0: "0 < \<bar>x\<bar>" using assms by simp
  define y where "y = 1 / \<bar>x\<bar>"
  have y1: "1 < y" using x0 x1 by (simp add: y_def)
  define m where "m = nat (\<lceil>y\<rceil> - 1)"
  have cy: "2 \<le> \<lceil>y\<rceil>" using y1 by linarith
  then have m1: "1 \<le> m" unfolding m_def by linarith
  have "real m = of_int \<lceil>y\<rceil> - 1"
    unfolding m_def using cy by simp
  then have my: "real m < y" "y \<le> real m + 1"
    by linarith+
  have b: "2 ^ (floorlog 2 m - 1) \<le> m \<and> m < 2 ^ floorlog 2 m"
    using floorlog_bounds[of m 2] m1 by simp
  have fl: "1 \<le> floorlog 2 m" using m1 by (simp add: floorlog_def)
  have e: "binary_exponent x = - int (floorlog 2 m)"
    using False by (simp add: binary_exponent_def m_def y_def)
  have p1: "(2::real) powi (binary_exponent x) = 1 / 2 ^ floorlog 2 m"
    using e by (simp add: power_int_minus_divide)
  have "- int (floorlog 2 m) + 1 = - int (floorlog 2 m - 1)" using fl by simp
  then have p2: "(2::real) powi (binary_exponent x + 1) = 1 / 2 ^ (floorlog 2 m - 1)"
    using e by (simp add: power_int_minus_divide del: of_nat_diff)
  have u: "y \<le> 2 ^ floorlog 2 m"
  proof -
    have "m + 1 \<le> 2 ^ floorlog 2 m" using b by simp
    then have "real (m + 1) \<le> real (2 ^ floorlog 2 m)" by (rule of_nat_mono)
    then show ?thesis using my by simp
  qed
  have l: "(2::real) ^ (floorlog 2 m - 1) < y"
  proof -
    have "(2::real) ^ (floorlog 2 m - 1) \<le> real m"
      using b by (metis of_nat_le_iff of_nat_numeral of_nat_power)
    then show ?thesis using my by linarith
  qed
  have xy: "\<bar>x\<bar> = 1 / y" by (simp add: y_def)
  have "1 / 2 ^ floorlog 2 m \<le> 1 / y"
    using u y1 by (intro divide_left_mono mult_pos_pos) simp_all
  moreover have "1 / y < 1 / 2 ^ (floorlog 2 m - 1)"
    using l y1 by (intro divide_strict_left_mono mult_pos_pos) simp_all
  ultimately show ?thesis using p1 p2 xy by simp
qed

lemma two_powi_less_imp_less:
  assumes "(2::real) powi a < 2 powi b"
  shows "a < b"
proof (rule ccontr)
  assume "\<not> a < b"
  then have "b \<le> a" by simp
  then have "(2::real) powi b \<le> 2 powi a"
    by (intro power_int_increasing) simp_all
  with assms show False by simp
qed

lemma binary_exponent_eqI:
  assumes "2 powi e \<le> \<bar>x\<bar>" "\<bar>x\<bar> < 2 powi (e + 1)"
  shows "binary_exponent x = e"
proof -
  have "(0::real) < 2 powi e" by simp
  then have "0 < \<bar>x\<bar>" using assms(1) by linarith
  then have "x \<noteq> 0" by simp
  then have b: "2 powi (binary_exponent x) \<le> \<bar>x\<bar>" "\<bar>x\<bar> < 2 powi (binary_exponent x + 1)"
    using binary_exponent_bounds by simp_all
  have "(2::real) powi e < 2 powi (binary_exponent x + 1)" using assms b by linarith
  then have "e < binary_exponent x + 1" by (rule two_powi_less_imp_less)
  moreover have "(2::real) powi (binary_exponent x) < 2 powi (e + 1)" using assms b by linarith
  then have "binary_exponent x < e + 1" by (rule two_powi_less_imp_less)
  ultimately show ?thesis by simp
qed


lemma two_powi_le_imp_le:
  assumes "(2::real) powi a \<le> 2 powi b"
  shows "a \<le> b"
proof (rule ccontr)
  assume "\<not> a \<le> b"
  then have "b < a" by simp
  then have "(2::real) powi b < 2 powi a"
    by (intro power_int_strict_increasing) simp_all
  with assms show False by simp
qed

lemma round_half_even_of_int: "round_half_even (of_int n) = n"
  by (simp add: round_half_even_def)

lemma round_half_even_le:
  assumes "x \<le> of_int n"
  shows "round_half_even x \<le> n"
proof (cases "x = of_int n")
  case True
  then show ?thesis by (simp add: round_half_even_of_int)
next
  case False
  then have "x < of_int n" using assms by simp
  then have "\<lfloor>x\<rfloor> < n" by (simp add: floor_less_iff)
  then show ?thesis by (simp add: round_half_even_def Let_def)
qed

lemma round_half_even_ge:
  assumes "of_int n \<le> x"
  shows "n \<le> round_half_even x"
proof -
  have "n \<le> \<lfloor>x\<rfloor>" using assms by (simp add: le_floor_iff)
  then show ?thesis by (simp add: round_half_even_def Let_def)
qed

lemma round_to_bits_eqI:
  assumes "2 powi e \<le> \<bar>x\<bar>" "\<bar>x\<bar> < 2 powi (e + 1)"
    and "round_half_even (x / 2 powi (e - int p + 1)) = m"
  shows "round_to_bits p x = of_int m * 2 powi (e - int p + 1)"
proof -
  have "(0::real) < 2 powi e" by simp
  then have "0 < \<bar>x\<bar>" using assms(1) by linarith
  then have "x \<noteq> 0" by simp
  moreover have "binary_exponent x = e"
    using assms(1,2) by (rule binary_exponent_eqI)
  ultimately show ?thesis
    using assms(3) by (simp add: round_to_bits_def Let_def)
qed

lemma round_to_bits_representable:
  assumes "\<bar>k\<bar> < 2 ^ p"
  shows "round_to_bits p (of_int k * 2 powi j) = of_int k * 2 powi j"
proof (cases "k = 0")
  case True
  then show ?thesis by (simp add: round_to_bits_def)
next
  case False
  define x :: real where "x = of_int k * 2 powi j"
  define e where "e = binary_exponent x"
  have x0: "x \<noteq> 0" using False by (simp add: x_def)
  then have b: "2 powi e \<le> \<bar>x\<bar>" unfolding e_def using binary_exponent_bounds by simp
  have "\<bar>x\<bar> = of_int \<bar>k\<bar> * 2 powi j" by (simp add: x_def abs_mult)
  also have "\<dots> < 2 ^ p * 2 powi j"
  proof -
    have "real_of_int \<bar>k\<bar> < real_of_int (2 ^ p)" using assms by (simp only: of_int_less_iff)
    then show ?thesis by simp
  qed
  also have "\<dots> = 2 powi (int p + j)" by (simp add: power_int_add)
  finally have "(2::real) powi e < 2 powi (int p + j)" using b by linarith
  then have "e < int p + j" by (rule two_powi_less_imp_less)
  then have d: "0 \<le> j - (e - int p + 1)" by simp
  define d where "d = nat (j - (e - int p + 1))"
  have "(2::real) powi j = 2 powi (e - int p + 1) * 2 powi (j - (e - int p + 1))"
    by (simp flip: power_int_add)
  also have "(2::real) powi (j - (e - int p + 1)) = 2 ^ d"
    using d by (simp add: d_def power_int_nonneg_exp)
  finally have "x / 2 powi (e - int p + 1) = of_int (k * 2 ^ d)"
    by (simp add: x_def)
  then have "round_half_even (x / 2 powi (e - int p + 1)) = k * 2 ^ d"
    by (simp only: round_half_even_of_int)
  then have "round_to_bits p x = of_int (k * 2 ^ d) * 2 powi (e - int p + 1)"
    using x0 by (simp add: round_to_bits_def Let_def e_def)
  also have "\<dots> = x"
    using \<open>x / 2 powi (e - int p + 1) = of_int (k * 2 ^ d)\<close> by (simp add: field_simps)
  finally show ?thesis by (simp add: x_def)
qed

lemma round_to_bits_of_int:
  assumes "\<bar>k\<bar> < 2 ^ p"
  shows "round_to_bits p (of_int k) = of_int k"
  using round_to_bits_representable[OF assms, of 0] by simp


text \<open>
  Values that need no rounding, and the bound that rounding keeps: a rounded value
  never passes a number that is itself representable.
\<close>

lemma round_to_bits_0: "round_to_bits p 0 = 0"
  by (simp add: round_to_bits_def)

lemma to_double_0: "to_double 0 = 0"
  by (simp add: to_double_def round_to_bits_0)

lemma to_float_0: "to_float 0 = 0"
  by (simp add: to_float_def round_to_bits_0)

lemma to_float_of_int: "\<bar>k\<bar> < 16777216 \<Longrightarrow> to_float (of_int k) = of_int k"
  using round_to_bits_of_int[of k 24] by (simp add: to_float_def)

lemma to_double_of_int: "\<bar>k\<bar> < 9007199254740992 \<Longrightarrow> to_double (of_int k) = of_int k"
  using round_to_bits_of_int[of k 53] by (simp add: to_double_def)

lemma to_float_numeral: "numeral k < (16777216::int) \<Longrightarrow> to_float (numeral k) = numeral k"
  using to_float_of_int[of "numeral k"] by simp

lemma to_double_numeral:
  "numeral k < (9007199254740992::int) \<Longrightarrow> to_double (numeral k) = numeral k"
  using to_double_of_int[of "numeral k"] by simp

lemma to_float_1: "to_float 1 = 1"
  using to_float_of_int[of 1] by simp

lemma to_double_1: "to_double 1 = 1"
  using to_double_of_int[of 1] by simp

lemma to_float_neg_numeral:
  "numeral k < (16777216::int) \<Longrightarrow> to_float (- numeral k) = - numeral k"
  using to_float_of_int[of "- numeral k"] by simp

lemma to_double_neg_numeral:
  "numeral k < (9007199254740992::int) \<Longrightarrow> to_double (- numeral k) = - numeral k"
  using to_double_of_int[of "- numeral k"] by simp



text \<open>Rounding keeps the sign, so the sign of the library cosine is that of the cosine.\<close>

lemma round_to_bits_pos_iff:
  assumes "0 < p"
  shows "0 < round_to_bits p x \<longleftrightarrow> 0 < x"
proof (cases "x = 0")
  case True
  then show ?thesis by (simp add: round_to_bits_def)
next
  case False
  define e where "e = binary_exponent x"
  define ulp :: real where "ulp = 2 powi (e - int p + 1)"
  have ulp0: "0 < ulp" by (simp add: ulp_def)
  have r: "round_to_bits p x = of_int (round_half_even (x / ulp)) * ulp"
    using False by (simp add: round_to_bits_def Let_def ulp_def e_def)
  have b: "2 powi e \<le> \<bar>x\<bar>"
    unfolding e_def using False binary_exponent_bounds by simp
  have "e = (e - int p + 1) + (int p - 1)" by simp
  then have "(2::real) powi e = 2 powi ((e - int p + 1) + (int p - 1))" by (simp only:)
  also have "\<dots> = ulp * 2 powi (int p - 1)"
    unfolding ulp_def by (rule power_int_add) simp
  finally have "ulp * 2 powi (int p - 1) \<le> \<bar>x\<bar>" using b by simp
  moreover have "(1::real) \<le> 2 powi (int p - 1)"
    using assms by (intro one_le_power_int) simp_all
  then have "ulp * 1 \<le> ulp * 2 powi (int p - 1)"
    using ulp0 by (intro mult_left_mono) simp_all
  ultimately have u: "ulp \<le> \<bar>x\<bar>" by simp
  show ?thesis
  proof (cases "0 < x")
    case True
    then have "1 \<le> x / ulp" using u ulp0 by (simp add: le_divide_eq)
    then have "of_int 1 \<le> x / ulp" by simp
    then have "1 \<le> round_half_even (x / ulp)" by (rule round_half_even_ge)
    then have "0 < real_of_int (round_half_even (x / ulp))" by simp
    then show ?thesis using r ulp0 True by simp
  next
    case neg: False
    then have "x / ulp \<le> - 1" using u ulp0 False by (simp add: divide_le_eq)
    then have "x / ulp \<le> of_int (- 1)" by simp
    then have "round_half_even (x / ulp) \<le> - 1" by (rule round_half_even_le)
    then have "real_of_int (round_half_even (x / ulp)) < 0" by simp
    then have "real_of_int (round_half_even (x / ulp)) * ulp < 0"
      using ulp0 by (simp add: mult_less_0_iff)
    then show ?thesis using r neg by simp
  qed
qed

lemma libm_cos_pos_iff: "0 < libm_cos x \<longleftrightarrow> 0 < cos x"
  by (simp add: libm_cos_def to_double_def round_to_bits_pos_iff)

lemma cos_negative:
  fixes x :: real
  assumes "2 \<le> x" "x < 3"
  shows "cos x < 0"
proof -
  have "- (pi / 2) < x - pi" "x - pi < pi / 2"
    using assms pi_less_4 pi_ge_two by linarith+
  then have "0 < cos (x - pi)" by (rule cos_gt_zero_pi)
  moreover have "cos (x - pi + pi) = - cos (x - pi)"
    by (rule cos_periodic_pi)
  moreover have "x - pi + pi = x"
    by simp
  ultimately show ?thesis
    by (simp only:)
qed


section \<open>The GPS Gold code\<close>

text \<open>
  The G2 feedback of the provider XORs seven taps, so the all-ones register feeds a one
  back into itself: G2 never leaves its initial state, whatever the tap delay.
\<close>

lemma g2_all_ones_fixed: "g2_advance 0x3FF = 0x3FF"
  by (simp add: g2_advance_def g2_feedback_def bit_at_def)

lemma g2_advance_n_all_ones: "g2_advance_n n 0x3FF = 0x3FF"
  by (induction n) (simp_all add: g2_all_ones_fixed)

lemma gps_initial_code_state_1:
  "gps_initial_code_state 1 = \<lparr>g1_register = 0x3FF, g2_register = 0x3FF, chip_count = 0\<rparr>"
  by (simp add: gps_initial_code_state_def gps_tap_delay_def gps_tap_delays_def
      GPSCodeState_init_def g2_advance_n_all_ones)

lemma gps_gold_chip_1:
  "gps_gold_chip 1 \<lparr>g1_register = g1, g2_register = 0x3FF, chip_count = c\<rparr>
     = Some (bit_at g1 9 XOR 1)"
  by (simp add: gps_gold_chip_def gps_tap_delay_def gps_tap_delays_def g2_advance_n_all_ones
      bit_at_def)

lemma gps_advance_registers_ones:
  "gps_advance_registers \<lparr>g1_register = g1, g2_register = 0x3FF, chip_count = c\<rparr>
     = \<lparr>g1_register = g1_advance g1, g2_register = 0x3FF, chip_count = c\<rparr>"
  by (simp add: gps_advance_registers_def g2_all_ones_fixed)

lemma gps_state_1023:
  "gps_state_after 1 1023 = \<lparr>g1_register = 205, g2_register = 0x3FF, chip_count = 0\<rparr>"
  by (simp add: gps_state_after_numeral gps_initial_code_state_1 gps_advance_registers_ones
        g1_advance_def g1_feedback_def bit_at_def)

text \<open>G2 stays at all ones for every PRN and G1 does not depend on the PRN, so the
  provider emits one and the same chip sequence for all of PRN 1..37.\<close>

lemma g2_register_stuck: "g2_register (gps_state_after pn n) = 0x3FF"
proof (induction n)
  case 0
  show ?case
    by (simp add: gps_initial_code_state_def GPSCodeState_init_def g2_advance_n_all_ones
        split: option.splits)
next
  case (Suc n)
  then show ?case
    by (simp add: gps_advance_registers_def g2_all_ones_fixed)
qed

lemma g1_register_same_for_all_prn:
  "g1_register (gps_state_after pn n) = g1_register (gps_state_after 1 n)"
proof (induction n)
  case 0
  show ?case
    by (simp add: gps_initial_code_state_def GPSCodeState_init_def split: option.splits)
next
  case (Suc n)
  then show ?case
    by (simp add: gps_advance_registers_def)
qed

lemma gps_chip_seq_same_for_all_prn:
  assumes "1 \<le> pn" "pn \<le> 37"
  shows "gps_chip_seq pn n = gps_chip_seq 1 n"
proof -
  have "gps_tap_delay pn \<noteq> None" "gps_tap_delay 1 \<noteq> None"
    using assms by (simp_all add: gps_tap_delay_def)
  then show ?thesis
    by (auto simp: gps_chip_seq_def gps_gold_chip_def g2_register_stuck g2_advance_n_all_ones
        g1_register_same_for_all_prn[of pn n])
qed

text \<open>
  C3. The claim: for every PRN 1..37 the Gold code of the provider has exact period 1023
  and balance +1 or -1 over a period. The generator of \<open>GpsL1Provider\<close> does not have
  it: for PRN 1 the chip after 1023 advances differs from the first chip, so 1023 is not
  a period of the sequence, and the first 1023 chips sum to 175 in bipolar form.
\<close>

theorem gps_gold_code_period_and_balance:
  "gps_chip_seq 1 0 = Some 0 \<and> gps_chip_seq 1 1023 = Some 1 \<and> gps_balance 1 1023 = 175"
proof -
  have a: "gps_chip_seq 1 0 = Some 0"
    by (simp add: gps_chip_seq_def gps_initial_code_state_1 gps_gold_chip_1 bit_at_def)
  have b: "gps_chip_seq 1 1023 = Some 1"
    by (simp add: gps_chip_seq_def gps_state_1023 gps_gold_chip_1 bit_at_def)
  have c: "gps_balance 1 1023 = 175"
    by (simp add: gps_balance_def gps_initial_code_state_1 gps_balance_from_numeral
        gps_gold_chip_1 gps_advance_registers_ones g1_advance_def g1_feedback_def
        bit_at_def bipolar_def)
  from a b c show ?thesis by simp
qed

section \<open>Registers that reach zero\<close>

text \<open>
  C8. The claim: from the initial seed of every generator and every PRN, no LFSR
  register is ever all zero. For Galileo PRN 6, one of the six PRNs the provider
  activates, the secondary register starts at 2 (the seed \<open>0x10 + 18 = 0x22\<close> loses its
  top bit under the mask \<open>0x1F\<close>), is 1 after one chip advance and 0 after two.
\<close>

theorem galileo_secondary_register_reaches_zero:
  "secondary_lfsr (galileo_initial_code_state 6) = 2 \<and>
   secondary_lfsr (galileo_state_after 6 1) = 1 \<and>
   secondary_lfsr (galileo_state_after 6 2) = 0"
  by (simp add: galileo_state_after_numeral galileo_initial_code_state_def
      GalileoCodeState_init_def galileo_advance_registers_def secondary_advance_def
      secondary_feedback_def bit_at_def)

section \<open>The guard of \<open>mix_all_signals\<close>\<close>

text \<open>
  C10. A call of \<open>mix_all_signals\<close> with a null buffer or a sample count that is not
  strictly positive raises the error, whatever the state of the orchestrator (so also
  when it is initialised and ready), and returns no chunk; a call that returns a chunk
  had a non-null buffer and a positive sample count.
\<close>

theorem mix_all_signals_rejects_invalid_arguments:
  "(buffer = None \<or> sample_count \<le> 0 \<longrightarrow>
      mix_all_signals buffer sample_count time_now orch = Inl InvalidParameters) \<and>
   (mix_all_signals buffer sample_count time_now orch = Inr (orch', out) \<longrightarrow>
      buffer \<noteq> None \<and> 0 < sample_count \<and> initialized orch)"
  by (auto simp: mix_all_signals_def split: sum.splits)

theorem mix_all_signals_rejects_invalid_arguments_witness:
  "mix_all_signals None 4 0 ((SignalOrchestrator_new GlobalConfig_default)\<lparr>initialized := True\<rparr>)
     = Inl InvalidParameters \<and>
   mix_all_signals (Some []) 0 0
       ((SignalOrchestrator_new GlobalConfig_default)\<lparr>initialized := True\<rparr>)
     = Inl InvalidParameters \<and>
   mix_all_signals (Some [(7, 7), (7, 7)]) 2 0
       ((SignalOrchestrator_new GlobalConfig_default)\<lparr>initialized := True\<rparr>)
     = Inr ((SignalOrchestrator_new GlobalConfig_default)\<lparr>initialized := True\<rparr>,
            [(0, 0), (0, 0)])"
  using mix_all_signals_rejects_invalid_arguments
          [of None 4 0 "(SignalOrchestrator_new GlobalConfig_default)\<lparr>initialized := True\<rparr>"]
        mix_all_signals_rejects_invalid_arguments
          [of "Some []" 0 0
              "(SignalOrchestrator_new GlobalConfig_default)\<lparr>initialized := True\<rparr>"]
        mix_all_signals_rejects_invalid_arguments
          [of "Some [(7, 7), (7, 7)]" 2 0
              "(SignalOrchestrator_new GlobalConfig_default)\<lparr>initialized := True\<rparr>"
              "(SignalOrchestrator_new GlobalConfig_default)\<lparr>initialized := True\<rparr>"
              "[(0, 0), (0, 0)]"]
  by (simp add: mix_all_signals_def SignalOrchestrator_new_def prevent_overflow_def
        int32_to_int16_def numeral_2_eq_2)

section \<open>The phase of the NCO\<close>

text \<open>
  With a phase in \<open>[0, 2 pi)\<close> and an increment in \<open>[0, 2 pi)\<close>, that is a frequency from 0
  up to the sample rate, the single conditional subtraction keeps the phase in the
  interval; and for a phase that is not negative the table index is the floor.
\<close>

lemma nco_advance_keeps_phase_in_range:
  assumes "0 \<le> phase n" "phase n < 2 * pi" "0 \<le> phase_increment n" "phase_increment n < 2 * pi"
  shows "0 \<le> phase (nco_advance n) \<and> phase (nco_advance n) < 2 * pi"
  using assms by (auto simp: nco_advance_def Let_def)

lemma nat_mod_2_64_mod_LUT:
  fixes k :: int
  assumes "0 \<le> k"
  shows "nat (k mod 2 ^ 64) mod LUT_SIZE = nat k mod LUT_SIZE"
proof -
  have "nat (k mod 2 ^ 64) = nat k mod 2 ^ 64"
    using assms by (simp add: nat_mod_distrib)
  moreover have "LUT_SIZE dvd 2 ^ 64"
    by (simp add: LUT_SIZE_def)
  ultimately show ?thesis
    by (simp add: mod_mod_cancel)
qed

lemma nco_index_floor:
  assumes "0 \<le> phase n"
  shows "nco_index n = nat \<lfloor>phase n * real LUT_SIZE / (2 * pi)\<rfloor> mod LUT_SIZE"
proof -
  define x where "x = phase n * real LUT_SIZE / (2 * pi)"
  have x0: "0 \<le> x"
    using assms by (simp add: x_def)
  then have "0 \<le> \<lfloor>x\<rfloor>"
    by simp
  then have "nat (\<lfloor>x\<rfloor> mod 2 ^ 64) mod LUT_SIZE = nat \<lfloor>x\<rfloor> mod LUT_SIZE"
    by (rule nat_mod_2_64_mod_LUT)
  moreover have "nco_index n = nat (\<lfloor>x\<rfloor> mod 2 ^ 64) mod LUT_SIZE"
    using x0 unfolding nco_index_def double_to_size_t_def trunc_toward_zero_def x_def by simp
  ultimately show ?thesis
    unfolding x_def by simp
qed

lemma phase_increment_advance: "phase_increment (nco_advance n) = phase_increment n"
  by (simp add: nco_advance_def Let_def)

text \<open>So the phase after every sample of \<open>generate_samples\<close> is in the interval, and
  the phase the oscillator is left with is the last of them.\<close>

lemma nco_phases_in_range:
  assumes "0 \<le> phase n" "phase n < 2 * pi" "0 \<le> phase_increment n" "phase_increment n < 2 * pi"
  shows "\<forall>ph\<in>set (nco_phases count n). 0 \<le> ph \<and> ph < 2 * pi"
  using assms
proof (induction count arbitrary: n)
  case 0
  then show ?case by simp
next
  case (Suc count)
  have a: "0 \<le> phase (nco_advance n) \<and> phase (nco_advance n) < 2 * pi"
    using Suc.prems by (rule nco_advance_keeps_phase_in_range)
  then have "\<forall>ph\<in>set (nco_phases count (nco_advance n)). 0 \<le> ph \<and> ph < 2 * pi"
    using Suc.prems by (intro Suc.IH) (simp_all add: phase_increment_advance)
  with a show ?case by simp
qed

lemma generate_samples_final_phase:
  "phase (snd (generate_samples count n)) = last (phase n # nco_phases count n)"
proof (induction count arbitrary: n)
  case 0
  then show ?case by simp
next
  case (Suc count)
  then show ?case
    by (simp add: split_def Let_def)
qed

lemma nco_reset_phase_in_range:
  "0 \<le> phase (nco_reset_phase n) \<and> phase (nco_reset_phase n) < 2 * pi"
  by (simp add: nco_reset_phase_def)

text \<open>A frequency from 0 up to the sample rate gives such an increment.\<close>

lemma nco_set_frequency_increment:
  assumes "0 < sample_rate_hz n" "0 \<le> f" "f < sample_rate_hz n"
  shows "0 \<le> phase_increment (nco_set_frequency f n) \<and>
         phase_increment (nco_set_frequency f n) < 2 * pi"
proof -
  have "f / sample_rate_hz n < 1"
    using assms by simp
  then have "2 * pi * (f / sample_rate_hz n) < 2 * pi * 1"
    by (intro mult_strict_left_mono) simp_all
  moreover have "0 \<le> 2 * pi * f / sample_rate_hz n"
    using assms by simp
  ultimately show ?thesis
    by (simp add: nco_set_frequency_def)
qed

text \<open>
  C9. The claim: for every sequence of NCO operations with any frequency, the phase stays
  in \<open>[0, 2 pi)\<close> after every sample. The oscillator of a provider (sample rate 60 MHz)
  set to the frequency -6.58 MHz, the GPS offset that the mixing test of the repository
  passes in, holds a negative phase after generating its first sample: the wrap only
  ever subtracts \<open>2 pi\<close>.
\<close>

theorem nco_phase_leaves_interval_for_negative_frequency:
  "phase (snd (generate_samples 1
       (nco_set_frequency (- 6580000) (DigitalNCO_new DEFAULT_SAMPLING_RATE)))) < 0"
  by (simp add: nco_advance_def nco_set_frequency_def DigitalNCO_new_def
      DEFAULT_SAMPLING_RATE_def Let_def split_def)

section \<open>Saturation\<close>




text \<open>
  The GLONASS summation narrows the 32-bit sums before it clamps them, so that it
  saturates only where the sums are in the int16 range. They are: no part of a sample
  that \<open>generate_signal\<close> writes exceeds 700, whatever the generator, the start time
  and the sample index.
\<close>

lemma to_float_seven_tenths: "to_float (7 / 10) = 11744051 / 16777216"
  unfolding to_float_def
  using round_to_bits_eqI[of "- 1" "7 / 10" 24 11744051]
  by (simp add: round_half_even_def Let_def)






lemma glonass_bpsk_signal_values:
  "glonass_bpsk_signal time = 1000 \<or> glonass_bpsk_signal time = - 1000"
  by (simp add: glonass_bpsk_signal_def Let_def)





















text \<open>
  With sums outside the int16 range the summation would not saturate: two buffers
  holding 20000 would give -25536. The provider has no state with such buffers.
\<close>

lemma avx2_sum_channels_narrows_before_clamping:
  "avx2_sum_channels ([[(20000, 0)], [(20000, 0)]] @ replicate 12 [(0, 0)]) [(0, 0)] 1
     = [(- 25536, 0)]"
  by (simp add: avx2_sum_channels_def sum_channel_sample_def int32_to_int16_def
      eval_nat_numeral)



































section \<open>The GLONASS channels\<close>

text \<open>
  The frequency plan is the one of the claim: the generator configured for channel \<open>k\<close>
  holds \<open>f_k = 1602e6 + k * 0.5625e6\<close> and rotates by \<open>k * 0.5625e6\<close>, the channels of the
  provider carry the frequencies \<open>f_k\<close>, and the C generator writes one and the same code
  for every valid PRN.
\<close>

lemma generator_configure_frequency:
  assumes "- 7 \<le> k" "k \<le> 6"
  shows "gen_frequency_hz (generator_configure k 1602000000 pwr g)
           = 1602000000 + real_of_int k * 562500 \<and>
         delta_f_hz (generator_configure k 1602000000 pwr g) = real_of_int k * 562500"
proof -
  have a: "to_double (real_of_int k * 562500) = real_of_int (k * 562500)"
    using to_double_of_int[of "k * 562500"] assms by simp
  have b: "to_double (1602000000 + real_of_int (k * 562500))
             = real_of_int (1602000000 + k * 562500)"
    using to_double_of_int[of "1602000000 + k * 562500"] assms by simp
  have c: "to_double (real_of_int (1602000000 + k * 562500) - 1602000000)
             = real_of_int (k * 562500)"
    using to_double_of_int[of "k * 562500"] assms by simp
  show ?thesis
    by (simp only: generator_configure_def Let_def a b c) simp
qed

lemma provider_channel_frequencies:
  "list_all (\<lambda>c. chan_frequency_hz c = 1602000000 + real_of_int (channel_number c) * 562500)
     (channels GlonassL1Provider_new)"
  by (simp add: GlonassL1Provider_new_def list_all_iff)

lemma generate_glonass_code_same:
  "1 \<le> p1 \<and> p1 \<le> 24 \<and> 1 \<le> p2 \<and> p2 \<le> 24 \<longrightarrow>
      generate_glonass_code p1 code 511 = generate_glonass_code p2 code 511"
  by (simp add: generate_glonass_code_def GLONASS_CA_CODE_LENGTH_def)

text \<open>The register of the C generator repeats after three advances once its nine initial
  bits are shifted out.\<close>

lemma glonass_state_after_numeral:
  "glonass_state_after (numeral k) = glonass_advance (glonass_state_after (pred_numeral k))"
  by (simp add: numeral_eq_Suc)

lemma glonass_register_repeats_after_three: "glonass_state_after 10 = glonass_state_after 7"
  by (simp add: glonass_state_after_numeral glonass_advance_def glonass_feedback_def)

text \<open>
  The values of the rounded operations on the way to the samples evaluated below, at
  the sample rate 60 MHz: the sample time, \<open>2.0 * M_PI\<close> and its product with the chip
  rate, the time and the chip phase of sample 50, the time of sample 3 and the
  rotation phases and table positions of the channels \<open>k = 5\<close> and \<open>k = -5\<close> there.
\<close>

lemma sample_time_value:
  assumes "x = 1 / 60000000"
  shows "to_double x = 5037190915060955 / 302231454903657293676544"
proof -
  have "to_double (1 / 60000000) = 5037190915060955 / 302231454903657293676544"
    using round_to_bits_eqI[of "- 26" "1 / 60000000" 53 "5037190915060955"]
    by (simp add: to_double_def round_half_even_def Let_def)
  then show ?thesis
    by (simp only: assms)
qed

lemma two_pi_value:
  assumes "x = 884279719003555 / 140737488355328"
  shows "to_double x = 884279719003555 / 140737488355328"
proof -
  have "to_double (884279719003555 / 140737488355328) = 884279719003555 / 140737488355328"
    using round_to_bits_eqI[of "2" "884279719003555 / 140737488355328" 53 "7074237752028440"]
    by (simp add: to_double_def round_half_even_def Let_def)
  then show ?thesis
    by (simp only: assms)
qed

lemma chip_rate_factor_value:
  assumes "x = 56483367051352075625 / 17592186044416"
  shows "to_double x = 6894942267010751 / 2147483648"
proof -
  have "to_double (56483367051352075625 / 17592186044416) = 6894942267010751 / 2147483648"
    using round_to_bits_eqI[of "21" "56483367051352075625 / 17592186044416" 53 "6894942267010751"]
    by (simp add: to_double_def round_half_even_def Let_def)
  then show ?thesis
    by (simp only: assms)
qed

lemma time_50_value:
  assumes "x = 125929772876523875 / 151115727451828646838272"
  shows "to_double x = 3935305402391371 / 4722366482869645213696"
proof -
  have "to_double (125929772876523875 / 151115727451828646838272) = 3935305402391371 / 4722366482869645213696"
    using round_to_bits_eqI[of "- 21" "125929772876523875 / 151115727451828646838272" 53 "7870610804782742"]
    by (simp add: to_double_def round_half_even_def Let_def)
  then show ?thesis
    by (simp only: assms)
qed

lemma time_50_fixed:
  assumes "x = 3935305402391371 / 4722366482869645213696"
  shows "to_double x = 3935305402391371 / 4722366482869645213696"
proof -
  have "to_double (3935305402391371 / 4722366482869645213696) = 3935305402391371 / 4722366482869645213696"
    using round_to_bits_eqI[of "- 21" "3935305402391371 / 4722366482869645213696" 53 "7870610804782742"]
    by (simp add: to_double_def round_half_even_def Let_def)
  then show ?thesis
    by (simp only: assms)
qed

lemma chip_phase_50_value:
  assumes "x = 27133703552544015252359166629621 / 10141204801825835211973625643008"
  shows "to_double x = 3012446242738777 / 1125899906842624"
proof -
  have "to_double (27133703552544015252359166629621 / 10141204801825835211973625643008) = 3012446242738777 / 1125899906842624"
    using round_to_bits_eqI[of "1" "27133703552544015252359166629621 / 10141204801825835211973625643008" 53 "6024892485477554"]
    by (simp add: to_double_def round_half_even_def Let_def)
  then show ?thesis
    by (simp only: assms)
qed


lemma scaled_plus_value:
  assumes "x = 1468006375 / 2097152"
  shows "to_float x = 700"
proof -
  have "to_float (1468006375 / 2097152) = 700"
    using round_to_bits_eqI[of "9" "1468006375 / 2097152" 24 "11468800"]
    by (simp add: to_float_def round_half_even_def Let_def)
  then show ?thesis
    by (simp only: assms)
qed

lemma scaled_minus_value:
  assumes "x = - (1468006375 / 2097152)"
  shows "to_float x = - 700"
proof -
  have "to_float (- (1468006375 / 2097152)) = - 700"
    using round_to_bits_eqI[of "9" "- (1468006375 / 2097152)" 24 "- 11468800"]
    by (simp add: to_float_def round_half_even_def Let_def)
  then show ?thesis
    by (simp only: assms)
qed

lemma time_3_value:
  assumes "x = 15111572745182865 / 302231454903657293676544"
  shows "to_double x = 944473296573929 / 18889465931478580854784"
proof -
  have "to_double (15111572745182865 / 302231454903657293676544) = 944473296573929 / 18889465931478580854784"
    using round_to_bits_eqI[of "- 25" "15111572745182865 / 302231454903657293676544" 53 "7555786372591432"]
    by (simp add: to_double_def round_half_even_def Let_def)
  then show ?thesis
    by (simp only: assms)
qed

lemma time_3_fixed:
  assumes "x = 944473296573929 / 18889465931478580854784"
  shows "to_double x = 944473296573929 / 18889465931478580854784"
proof -
  have "to_double (944473296573929 / 18889465931478580854784) = 944473296573929 / 18889465931478580854784"
    using round_to_bits_eqI[of "- 25" "944473296573929 / 18889465931478580854784" 53 "7555786372591432"]
    by (simp add: to_double_def round_half_even_def Let_def)
  then show ?thesis
    by (simp only: assms)
qed

lemma rotation_plus_1:
  assumes "x = 621759177424374609375 / 35184372088832"
  shows "to_double x = 2371823033998011 / 134217728"
proof -
  have "to_double (621759177424374609375 / 35184372088832) = 2371823033998011 / 134217728"
    using round_to_bits_eqI[of "24" "621759177424374609375 / 35184372088832" 53 "4743646067996022"]
    by (simp add: to_double_def round_half_even_def Let_def)
  then show ?thesis
    by (simp only: assms)
qed

lemma rotation_plus_2:
  assumes "x = 2240123519810079528693700455219 / 2535301200456458802993406410752"
  shows "to_double x = 3979258735515997 / 4503599627370496"
proof -
  have "to_double (2240123519810079528693700455219 / 2535301200456458802993406410752) = 3979258735515997 / 4503599627370496"
    using round_to_bits_eqI[of "- 1" "2240123519810079528693700455219 / 2535301200456458802993406410752" 53 "7958517471031994"]
    by (simp add: to_double_def round_half_even_def Let_def)
  then show ?thesis
    by (simp only: assms)
qed

lemma rotation_plus_3:
  assumes "x = 3979258735515997 / 4503599627370496"
  shows "to_double x = 3979258735515997 / 4503599627370496"
proof -
  have "to_double (3979258735515997 / 4503599627370496) = 3979258735515997 / 4503599627370496"
    using round_to_bits_eqI[of "- 1" "3979258735515997 / 4503599627370496" 53 "7958517471031994"]
    by (simp add: to_double_def round_half_even_def Let_def)
  then show ?thesis
    by (simp only: assms)
qed

lemma rotation_plus_4:
  assumes "x = 3979258735515997 / 549755813888"
  shows "to_double x = 3979258735515997 / 549755813888"
proof -
  have "to_double (3979258735515997 / 549755813888) = 3979258735515997 / 549755813888"
    using round_to_bits_eqI[of "12" "3979258735515997 / 549755813888" 53 "7958517471031994"]
    by (simp add: to_double_def round_half_even_def Let_def)
  then show ?thesis
    by (simp only: assms)
qed

lemma rotation_plus_5:
  assumes "x = 1018690236292095232 / 884279719003555"
  shows "to_double x = 5066549580791807 / 4398046511104"
proof -
  have "to_double (1018690236292095232 / 884279719003555) = 5066549580791807 / 4398046511104"
    using round_to_bits_eqI[of "10" "1018690236292095232 / 884279719003555" 53 "5066549580791807"]
    by (simp add: to_double_def round_half_even_def Let_def)
  then show ?thesis
    by (simp only: assms)
qed

lemma rotation_minus_1:
  assumes "x = - (621759177424374609375 / 35184372088832)"
  shows "to_double x = - (2371823033998011 / 134217728)"
proof -
  have "to_double (- (621759177424374609375 / 35184372088832)) = - (2371823033998011 / 134217728)"
    using round_to_bits_eqI[of "24" "- (621759177424374609375 / 35184372088832)" 53 "- 4743646067996022"]
    by (simp add: to_double_def round_half_even_def Let_def)
  then show ?thesis
    by (simp only: assms)
qed

lemma rotation_minus_2:
  assumes "x = - (2240123519810079528693700455219 / 2535301200456458802993406410752)"
  shows "to_double x = - (3979258735515997 / 4503599627370496)"
proof -
  have "to_double (- (2240123519810079528693700455219 / 2535301200456458802993406410752)) = - (3979258735515997 / 4503599627370496)"
    using round_to_bits_eqI[of "- 1" "- (2240123519810079528693700455219 / 2535301200456458802993406410752)" 53 "- 7958517471031994"]
    by (simp add: to_double_def round_half_even_def Let_def)
  then show ?thesis
    by (simp only: assms)
qed

lemma rotation_minus_3:
  assumes "x = - (3979258735515997 / 4503599627370496)"
  shows "to_double x = - (3979258735515997 / 4503599627370496)"
proof -
  have "to_double (- (3979258735515997 / 4503599627370496)) = - (3979258735515997 / 4503599627370496)"
    using round_to_bits_eqI[of "- 1" "- (3979258735515997 / 4503599627370496)" 53 "- 7958517471031994"]
    by (simp add: to_double_def round_half_even_def Let_def)
  then show ?thesis
    by (simp only: assms)
qed

lemma rotation_minus_4:
  assumes "x = - (3979258735515997 / 549755813888)"
  shows "to_double x = - (3979258735515997 / 549755813888)"
proof -
  have "to_double (- (3979258735515997 / 549755813888)) = - (3979258735515997 / 549755813888)"
    using round_to_bits_eqI[of "12" "- (3979258735515997 / 549755813888)" 53 "- 7958517471031994"]
    by (simp add: to_double_def round_half_even_def Let_def)
  then show ?thesis
    by (simp only: assms)
qed

lemma rotation_minus_5:
  assumes "x = - (1018690236292095232 / 884279719003555)"
  shows "to_double x = - (5066549580791807 / 4398046511104)"
proof -
  have "to_double (- (1018690236292095232 / 884279719003555)) = - (5066549580791807 / 4398046511104)"
    using round_to_bits_eqI[of "10" "- (1018690236292095232 / 884279719003555)" 53 "- 5066549580791807"]
    by (simp add: to_double_def round_half_even_def Let_def)
  then show ?thesis
    by (simp only: assms)
qed

lemma chip_phase_50_cos:
  fixes x :: real
  assumes "x = 3012446242738777 / 1125899906842624"
  shows "(0 < cos x) = False"
proof -
  have "cos (3012446242738777 / 1125899906842624 :: real) < 0"
    by (rule cos_negative) simp_all
  then show ?thesis
    by (simp only: assms) simp
qed

lemma generator_k0_fields:
  "gen_sample_rate_hz (generator_configure 0 1602000000 (- 128)
      (GlonassChannelGenerator_new DEFAULT_SAMPLING_RATE)) = 60000000 \<and>
   delta_f_hz (generator_configure 0 1602000000 (- 128)
      (GlonassChannelGenerator_new DEFAULT_SAMPLING_RATE)) = 0 \<and>
   current_phase (generator_configure 0 1602000000 (- 128)
      (GlonassChannelGenerator_new DEFAULT_SAMPLING_RATE)) = 0"
  by (simp add: generator_configure_def GlonassChannelGenerator_new_def
      DEFAULT_SAMPLING_RATE_def Let_def to_double_0 to_double_numeral)

lemma phase_table_0: "phase_table 0 = (1, 0)"
  by (simp add: phase_table_def Let_def to_double_0 libm_cos_def libm_sin_def
      to_double_1 to_float_1 to_float_0)

lemma zero_rotation_index:
  "delta_f_hz g = 0 \<Longrightarrow> current_phase g = 0 \<Longrightarrow>
     glonass_table_index (glonass_rotation_phase g time) = 0"
  by (simp add: glonass_table_index_def glonass_rotation_phase_def to_double_0
      double_to_size_t_def trunc_toward_zero_def)

lemma double_to_int16_values:
  "double_to_int16 700 = 700" "double_to_int16 (- 700) = - 700" "double_to_int16 0 = 0"
  by (simp_all add: double_to_int16_def double_to_int32_def int32_to_int16_def
      trunc_toward_zero_def)

lemma unrotated_sample:
  assumes "delta_f_hz g = 0" "current_phase g = 0"
  shows "glonass_signal_sample g time_start i =
           (if glonass_bpsk_signal (glonass_sample_time g time_start i) = 1000
            then (700, 0) else (- 700, 0))"
  using glonass_bpsk_signal_values[of "glonass_sample_time g time_start i"]
  by (auto simp: glonass_signal_sample_def Let_def zero_rotation_index[OF assms] phase_table_0
      complex_float_mult_def to_float_0 to_float_numeral to_float_neg_numeral to_float_seven_tenths scaled_plus_value
      scaled_minus_value double_to_int16_values)

lemma bpsk_at_sample_0:
  assumes "gen_sample_rate_hz g = 60000000"
  shows "glonass_bpsk_signal (glonass_sample_time g 0 0) = 1000"
  by (simp add: glonass_bpsk_signal_def glonass_sample_time_def Let_def assms to_double_0
      libm_cos_pos_iff)

lemma bpsk_at_sample_50:
  assumes "gen_sample_rate_hz g = 60000000"
  shows "glonass_bpsk_signal (glonass_sample_time g 0 50) = - 1000"
  by (simp add: glonass_bpsk_signal_def glonass_sample_time_def Let_def assms M_PI_def
      libm_cos_pos_iff sample_time_value time_50_value time_50_fixed two_pi_value
      chip_rate_factor_value chip_phase_50_value chip_phase_50_cos)

text \<open>
  C6. The claim: every GLONASS satellite's baseband is spread by the same 511-chip
  m-sequence of exact period 511. \<open>generate_signal\<close> has no code: its baseband is the sign
  of a cosine at the chip rate. For the generator of channel \<open>k = 0\<close> at 60 MHz, which
  does not rotate, called for 60 samples from time 0 as \<open>generate_chunk\<close> calls it, the
  samples are 0.7 times the baseband: sample 0 is (700, 0) and sample 50 is (-700, 0),
  both inside the first chip, which lasts 117 samples. And the register of
  \<open>generate_glonass_code\<close>, meant to be the maximum-length one, is after ten advances in
  the state it had after seven: its chips repeat with period 3, not 511.
\<close>

theorem glonass_baseband_is_no_511_chip_code:
  "fst (generate_signal 60 0
          (generator_configure 0 1602000000 (- 128)
             (GlonassChannelGenerator_new DEFAULT_SAMPLING_RATE))) ! 0 = (700, 0) \<and>
   fst (generate_signal 60 0
          (generator_configure 0 1602000000 (- 128)
             (GlonassChannelGenerator_new DEFAULT_SAMPLING_RATE))) ! 50 = (- 700, 0) \<and>
   glonass_state_after 10 = glonass_state_after 7"
proof -
  define g where "g = generator_configure 0 1602000000 (- 128)
                        (GlonassChannelGenerator_new DEFAULT_SAMPLING_RATE)"
  have f: "gen_sample_rate_hz g = 60000000" "delta_f_hz g = 0" "current_phase g = 0"
    unfolding g_def using generator_k0_fields by simp_all
  have "glonass_signal_sample g 0 0 = (700, 0)"
    by (simp add: unrotated_sample[OF f(2,3)] bpsk_at_sample_0[OF f(1)])
  moreover have "glonass_signal_sample g 0 50 = (- 700, 0)"
    by (simp add: unrotated_sample[OF f(2,3)] bpsk_at_sample_50[OF f(1)])
  ultimately show ?thesis
    using glonass_register_repeats_after_three
    by (simp add: generate_signal_def Let_def g_def)
qed

text \<open>
  The table position is where rounding shows: at sample 3 the exact quotient of the
  channels \<open>k = 5\<close> and \<open>k = -5\<close> is the integer 1152, the rounded one lies just below
  it, and the index is 1151 for the one and 7041 for the other.
\<close>

lemma generator_k5_fields:
  "gen_sample_rate_hz (generator_configure 5 1602000000 pwr
      (GlonassChannelGenerator_new DEFAULT_SAMPLING_RATE)) = 60000000 \<and>
   delta_f_hz (generator_configure 5 1602000000 pwr
      (GlonassChannelGenerator_new DEFAULT_SAMPLING_RATE)) = 2812500 \<and>
   current_phase (generator_configure 5 1602000000 pwr
      (GlonassChannelGenerator_new DEFAULT_SAMPLING_RATE)) = 0"
  by (simp add: generator_configure_def GlonassChannelGenerator_new_def
      DEFAULT_SAMPLING_RATE_def Let_def to_double_numeral)

lemma generator_km5_fields:
  "gen_sample_rate_hz (generator_configure (- 5) 1602000000 pwr
      (GlonassChannelGenerator_new DEFAULT_SAMPLING_RATE)) = 60000000 \<and>
   delta_f_hz (generator_configure (- 5) 1602000000 pwr
      (GlonassChannelGenerator_new DEFAULT_SAMPLING_RATE)) = - 2812500 \<and>
   current_phase (generator_configure (- 5) 1602000000 pwr
      (GlonassChannelGenerator_new DEFAULT_SAMPLING_RATE)) = 0"
  by (simp add: generator_configure_def GlonassChannelGenerator_new_def
      DEFAULT_SAMPLING_RATE_def Let_def to_double_numeral to_double_neg_numeral)

lemma table_index_k5_sample_3:
  assumes "gen_sample_rate_hz g = 60000000" "delta_f_hz g = 2812500" "current_phase g = 0"
  shows "glonass_table_index (glonass_rotation_phase g (glonass_sample_time g 0 3)) = 1151"
  by (simp add: glonass_table_index_def glonass_rotation_phase_def glonass_sample_time_def
      Let_def assms M_PI_def PHASE_TABLE_SIZE_def sample_time_value time_3_value time_3_fixed
      two_pi_value rotation_plus_1 rotation_plus_2 rotation_plus_3 rotation_plus_4
      rotation_plus_5 double_to_size_t_def trunc_toward_zero_def)

lemma table_index_km5_sample_3:
  assumes "gen_sample_rate_hz g = 60000000" "delta_f_hz g = - 2812500" "current_phase g = 0"
  shows "glonass_table_index (glonass_rotation_phase g (glonass_sample_time g 0 3)) = 7041"
  by (simp add: glonass_table_index_def glonass_rotation_phase_def glonass_sample_time_def
      Let_def assms M_PI_def PHASE_TABLE_SIZE_def sample_time_value time_3_value time_3_fixed
      two_pi_value rotation_minus_1 rotation_minus_2 rotation_minus_3 rotation_minus_4
      rotation_minus_5 double_to_size_t_def trunc_toward_zero_def)


section \<open>Frequency offsets after initialisation\<close>

















lemmas eval_orch = initialize_def validate_configuration_def SignalOrchestrator_new_def
  GlobalConfig_default_def DEFAULT_SAMPLING_RATE_def DEFAULT_CENTER_FREQ_def
  calculate_frequency_offsets_def min_frequency_offset_def
  GpsL1Provider_new_def GalileoE1Provider_new_def BeidouB1Provider_new_def
  GlonassL1Provider_new_def cdma_set_frequency_offset_def glonass_set_frequency_offset_def
  cdma_configure_def glonass_configure_def Let_def



lemma upto_from_1: "[(1::int)..numeral n] = 1 # [2..numeral n]"
  by (simp add: upto_rec1)

lemma default_satellites_has_active:
  "list_ex is_active (initialize_default_satellites GPS)"
  "list_ex is_active (initialize_default_satellites GALILEO)"
  "list_ex is_active (initialize_default_satellites BEIDOU)"
  by (simp_all add: initialize_default_satellites_def default_satellites_def upto_rec1)




section \<open>The order of the calls in \<open>initialize\<close>\<close>

text \<open>\<open>initialize\<close> validates first: an invalid configuration raises the error and leaves
  the orchestrator as it was.\<close>

lemma initialize_validates_first:
  "\<not> validate_configuration orch \<Longrightarrow> initialize rinex paths orch = (Some ConfigInvalid, orch)"
  by (simp add: initialize_def)

lemma default_satellites_invalid:
  "list_all (\<lambda>sat. \<not> is_valid (ephemeris sat)) (default_satellites n pw k)"
  by (simp add: default_satellites_def EphemerisData_default_def list_all_iff)

lemma default_satellites_head:
  "default_satellites 32 pw k =
     \<lparr>prn = 1, doppler_hz = 0, power_dbm = pw, code_phase_chips = 0, carrier_phase_rad = 0,
      is_active = (1 \<le> k), ephemeris = EphemerisData_default\<rparr>
     # map (\<lambda>p. \<lparr>prn = p, doppler_hz = 0, power_dbm = pw, code_phase_chips = 0,
               carrier_phase_rad = 0, is_active = (p \<le> k),
               ephemeris = EphemerisData_default\<rparr>) [2..32]"
  by (simp add: default_satellites_def upto_rec1)

text \<open>
  C7. The claim: \<open>initialize\<close> validates the configuration and then, for each provider,
  calls \<open>configure\<close> first and \<open>load_ephemeris\<close> second. The code calls \<open>load_ephemeris\<close>
  first and \<open>configure\<close> second. With a GPS provider and a file that holds a valid record
  for PRN 1, the provider is ready after \<open>initialize\<close> and has the record in its map, but
  none of its satellites carries a valid ephemeris: the load ran over the empty satellite
  list, which \<open>configure\<close> filled afterwards. Calling \<open>configure\<close> and then
  \<open>load_ephemeris\<close> on the same provider attaches the record to PRN 1.
\<close>

theorem initialize_loads_ephemeris_before_configure:
  "(case initialize
           (\<lambda>c path. Some [1 \<mapsto> EphemerisData_default
                                    \<lparr>eph_prn := 1, sqrt_a := 5153.6, is_valid := True\<rparr>])
           [GPS \<mapsto> ''gps.nav'']
           ((SignalOrchestrator_new GlobalConfig_default)
              \<lparr>constellations := [Gps GpsL1Provider_new]\<rparr>) of
      (Some e, orch') \<Rightarrow> False
    | (None, orch') \<Rightarrow>
        (case constellations orch' of
           [Gps p] \<Rightarrow>
             cdma_is_ready p \<and>
             gps_ephemeris_data p 1 =
               Some (EphemerisData_default
                       \<lparr>eph_prn := 1, sqrt_a := 5153.6, is_valid := True\<rparr>) \<and>
             list_all (\<lambda>sat. \<not> is_valid (ephemeris sat)) (active_satellites p)
         | _ \<Rightarrow> False)) \<and>
   (case gps_load_ephemeris
           (\<lambda>c path. Some [1 \<mapsto> EphemerisData_default
                                    \<lparr>eph_prn := 1, sqrt_a := 5153.6, is_valid := True\<rparr>])
           ''gps.nav'' (cdma_configure GlobalConfig_default GpsL1Provider_new) of
      Inl e \<Rightarrow> False
    | Inr p \<Rightarrow>
        (case active_satellites p of
           sat # sats \<Rightarrow> prn sat = 1 \<and> is_valid (ephemeris sat)
         | [] \<Rightarrow> False))"
  by (simp add: eval_orch gps_load_ephemeris_def attach_ephemeris_def cdma_is_ready_def
      initialize_default_satellites_def default_satellites_invalid default_satellites_head
      EphemerisData_default_def)

section \<open>Readiness of a provider\<close>

lemma gps_sample_is_active:
  "gps_sample cfg t i (st, sat, buf) = Some (st', sat', buf') \<Longrightarrow> is_active sat' = is_active sat"
  by (auto simp: gps_sample_def Let_def split: if_splits option.splits)

lemma gps_sample_loop_is_active:
  "gps_sample_loop cfg t is (st, sat, buf) = Some (st', sat', buf') \<Longrightarrow>
     is_active sat' = is_active sat"
proof (induction "is" arbitrary: st sat buf)
  case Nil
  then show ?case by simp
next
  case (Cons i "is")
  from Cons.prems obtain st1 sat1 buf1 where
    s: "gps_sample cfg t i (st, sat, buf) = Some (st1, sat1, buf1)"
    and l: "gps_sample_loop cfg t is (st1, sat1, buf1) = Some (st', sat', buf')"
    by (auto split: option.splits)
  from Cons.IH[OF l] gps_sample_is_active[OF s] show ?case by simp
qed

lemma gps_satellites_is_active:
  "gps_satellites cfg n t sats cs buf = Some (sats', cs', buf') \<Longrightarrow>
     map is_active sats' = map is_active sats"
proof (induction sats arbitrary: cs buf sats' cs' buf')
  case Nil
  then show ?case by simp
next
  case (Cons sat sats)
  show ?case
  proof (cases "is_active sat")
    case False
    with Cons.prems obtain r where
      "gps_satellites cfg n t sats cs buf = Some (r, cs', buf')" "sats' = sat # r"
      by (auto split: option.splits)
    with Cons.IH show ?thesis by auto
  next
    case True
    let ?st = "case cs (prn sat) of None \<Rightarrow> gps_initial_code_state (prn sat) | Some st \<Rightarrow> st"
    from True Cons.prems obtain st1 sat2 buf1 where
      l: "gps_sample_loop cfg t [0..<n] (?st, update_doppler t sat, buf) = Some (st1, sat2, buf1)"
      by (auto simp: Let_def split: option.splits)
    with True Cons.prems obtain r where
      r: "gps_satellites cfg n t sats (cs(prn sat \<mapsto> st1)) buf1 = Some (r, cs', buf')"
      and s: "sats' = update_carrier_phase 1575420000 cfg n sat2 # r"
      by (auto simp: Let_def split: option.splits)
    have "is_active sat2 = is_active sat"
      using gps_sample_loop_is_active[OF l] by (simp add: update_doppler_def)
    with Cons.IH[OF r] s show ?thesis
      by (simp add: update_carrier_phase_def)
  qed
qed

lemma galileo_fold_is_active:
  "is_active (fst (snd (fold (galileo_sample cfg t) is (st, sat, buf)))) = is_active sat"
proof (induction "is" arbitrary: st sat buf)
  case Nil
  then show ?case by simp
next
  case (Cons i "is")
  obtain st1 sat1 buf1 where s: "galileo_sample cfg t i (st, sat, buf) = (st1, sat1, buf1)"
    by (cases "galileo_sample cfg t i (st, sat, buf)") auto
  then have "is_active sat1 = is_active sat"
    by (auto simp: galileo_sample_def Let_def split: if_splits prod.splits)
  with Cons.IH[of st1 sat1 buf1] s show ?case by simp
qed

lemma galileo_satellites_is_active:
  "map is_active (fst (galileo_satellites cfg n t sats cs buf)) = map is_active sats"
proof (induction sats arbitrary: cs buf)
  case Nil
  then show ?case by simp
next
  case (Cons sat sats)
  show ?case
  proof (cases "is_active sat")
    case False
    with Cons.IH[of cs buf] show ?thesis
      by (simp add: split_def Let_def)
  next
    case True
    let ?st = "case cs (prn sat) of None \<Rightarrow> galileo_initial_code_state (prn sat) | Some st \<Rightarrow> st"
    obtain st1 sat2 buf1 where
      f: "fold (galileo_sample cfg t) [0..<n] (?st, sat, buf) = (st1, sat2, buf1)"
      by (cases "fold (galileo_sample cfg t) [0..<n] (?st, sat, buf)") auto
    have a: "is_active sat2 = is_active sat"
      using galileo_fold_is_active[of cfg t "[0..<n]" ?st sat buf] f by simp
    have ih: "map is_active (fst (galileo_satellites cfg n t sats
                (cs(prn sat \<mapsto> update_boc_phase cfg n st1)) buf1)) = map is_active sats"
      by (rule Cons.IH)
    show ?thesis
      using True f a by (simp add: split_def Let_def update_carrier_phase_def ih)
  qed
qed

lemma beidou_fold_is_active:
  "is_active (fst (snd (fold (beidou_sample cfg t) is (st, sat, buf)))) = is_active sat"
proof (induction "is" arbitrary: st sat buf)
  case Nil
  then show ?case by simp
next
  case (Cons i "is")
  obtain st1 sat1 buf1 where s: "beidou_sample cfg t i (st, sat, buf) = (st1, sat1, buf1)"
    by (cases "beidou_sample cfg t i (st, sat, buf)") auto
  then have "is_active sat1 = is_active sat"
    by (auto simp: beidou_sample_def Let_def split: if_splits prod.splits)
  with Cons.IH[of st1 sat1 buf1] s show ?case by simp
qed

lemma beidou_satellites_is_active:
  "map is_active (fst (beidou_satellites cfg n t sats cs buf)) = map is_active sats"
proof (induction sats arbitrary: cs buf)
  case Nil
  then show ?case by simp
next
  case (Cons sat sats)
  show ?case
  proof (cases "is_active sat")
    case False
    with Cons.IH[of cs buf] show ?thesis
      by (simp add: split_def Let_def)
  next
    case True
    let ?st = "case cs (prn sat) of None \<Rightarrow> beidou_initial_code_state (prn sat) | Some st \<Rightarrow> st"
    obtain st1 sat2 buf1 where
      f: "fold (beidou_sample cfg t) [0..<n] (?st, sat, buf) = (st1, sat2, buf1)"
      by (cases "fold (beidou_sample cfg t) [0..<n] (?st, sat, buf)") auto
    have a: "is_active sat2 = is_active sat"
      using beidou_fold_is_active[of cfg t "[0..<n]" ?st sat buf] f by simp
    have ih: "map is_active (fst (beidou_satellites cfg n t sats (cs(prn sat \<mapsto> st1)) buf1))
                = map is_active sats"
      by (rule Cons.IH)
    show ?thesis
      using True f a by (simp add: split_def Let_def update_carrier_phase_def ih)
  qed
qed

lemma list_ex_is_active_map:
  "map is_active xs = map is_active ys \<Longrightarrow> list_ex is_active xs = list_ex is_active ys"
proof -
  assume "map is_active xs = map is_active ys"
  then have "list_ex id (map is_active xs) = list_ex id (map is_active ys)" by simp
  then show ?thesis by (simp add: list_ex_iff)
qed

lemma attach_ephemeris_is_active:
  "list_ex is_active (attach_ephemeris m sats) = list_ex is_active sats"
  by (induction sats) (simp_all add: attach_ephemeris_def split: option.splits)

lemma invariant_fresh: "p \<in> set fresh_providers \<Longrightarrow> provider_invariant p"
  by (auto simp: fresh_providers_def GpsL1Provider_new_def GalileoE1Provider_new_def
      BeidouB1Provider_new_def)

lemma invariant_generate_chunk:
  assumes "provider_invariant p" "generate_chunk n t p = Inr (p', out)"
  shows "provider_invariant p'"
proof (cases p)
  case (Gps g)
  with assms(2) obtain sats cs buf where
    s: "gps_satellites (config g) n t (active_satellites g) (gps_code_states g)
          (replicate n (0, 0)) = Some (sats, cs, buf)"
    and p': "p' = Gps (g\<lparr>active_satellites := sats, gps_code_states := cs,
               nco := snd (apply_frequency_offset (frequency_offset_hz g) (nco g) buf)\<rparr>)"
    by (auto simp: gps_generate_chunk_def Let_def split: if_splits option.splits prod.splits)
  from gps_satellites_is_active[OF s]
  have "list_ex is_active sats = list_ex is_active (active_satellites g)"
    by (rule list_ex_is_active_map)
  with assms(1) Gps p' show ?thesis by simp
next
  case (Galileo g)
  let ?r = "galileo_satellites (config g) n t (active_satellites g) (gal_code_states g)
          (replicate n (0, 0))"
  from Galileo assms(2) obtain cs nc where
    p': "p' = Galileo (g\<lparr>active_satellites := fst ?r, gal_code_states := cs, nco := nc\<rparr>)"
    by (auto simp: galileo_generate_chunk_def Let_def split: if_splits prod.splits)
  have "list_ex is_active (fst ?r) = list_ex is_active (active_satellites g)"
    by (rule list_ex_is_active_map) (rule galileo_satellites_is_active)
  with assms(1) Galileo p' show ?thesis by simp
next
  case (Beidou g)
  let ?r = "beidou_satellites (config g) n t (active_satellites g) (bds_code_states g)
          (replicate n (0, 0))"
  from Beidou assms(2) obtain cs nc where
    p': "p' = Beidou (g\<lparr>active_satellites := fst ?r, bds_code_states := cs, nco := nc\<rparr>)"
    by (auto simp: beidou_generate_chunk_def Let_def split: if_splits prod.splits)
  have "list_ex is_active (fst ?r) = list_ex is_active (active_satellites g)"
    by (rule list_ex_is_active_map) (rule beidou_satellites_is_active)
  with assms(1) Beidou p' show ?thesis by simp
next
  case (Glonass g)
  with assms(2) show ?thesis
    by (cases p') (auto simp: glonass_generate_chunk_def Let_def split: if_splits prod.splits)
qed

lemma invariant_step:
  assumes "provider_invariant p"
  shows "provider_invariant (provider_step rinex p op)"
proof (cases op)
  case (Configure cfg)
  with assms show ?thesis
    by (cases p) (simp_all add: cdma_configure_def default_satellites_has_active)
next
  case (LoadEphemeris path)
  with assms show ?thesis
    by (cases p)
       (auto simp: gps_load_ephemeris_def galileo_load_ephemeris_def beidou_load_ephemeris_def
          attach_ephemeris_is_active split: option.splits)
next
  case (SetFrequencyOffset x)
  with assms show ?thesis
    by (cases p) (simp_all add: cdma_set_frequency_offset_def)
next
  case (GenerateChunk n t)
  show ?thesis
  proof (cases "generate_chunk n t p")
    case (Inl e)
    with GenerateChunk assms show ?thesis by simp
  next
    case (Inr r)
    then obtain p' out where "generate_chunk n t p = Inr (p', out)"
      by (cases r) auto
    with GenerateChunk assms invariant_generate_chunk show ?thesis by auto
  qed
qed

lemma invariant_run:
  "provider_invariant p \<Longrightarrow> provider_invariant (foldl (provider_step rinex) p ops)"
  by (induction ops arbitrary: p) (simp_all add: invariant_step)

lemma invariant_ready:
  assumes "provider_invariant p"
  shows "is_ready p \<longleftrightarrow> is_configured p \<and> is_ephemeris_loaded p \<and> has_active_satellite p"
  using assms by (cases p) (auto simp: cdma_is_ready_def glonass_is_ready_def list_ex_iff)

lemma not_ready_generate_chunk: "\<not> is_ready p \<Longrightarrow> generate_chunk n t p = Inl NotReady"
  by (cases p)
     (simp_all add: gps_generate_chunk_def galileo_generate_chunk_def beidou_generate_chunk_def
        glonass_generate_chunk_def)

text \<open>
  C4. For each of the four providers and every sequence of operations on it from its
  constructed state (\<open>configure\<close>, \<open>load_ephemeris\<close>, \<open>set_frequency_offset\<close>,
  \<open>generate_chunk\<close>, in any order and with any arguments, whether they throw or not),
  \<open>is_ready\<close> is true exactly when the provider is configured, its ephemeris is loaded and
  it has an active satellite; and where \<open>is_ready\<close> is false, \<open>generate_chunk\<close> raises
  \<open>NotReady\<close> and returns no samples.
\<close>

theorem provider_readiness:
  assumes "p0 \<in> set fresh_providers"
  shows "(is_ready (foldl (provider_step rinex) p0 ops) \<longleftrightarrow>
            is_configured (foldl (provider_step rinex) p0 ops) \<and>
            is_ephemeris_loaded (foldl (provider_step rinex) p0 ops) \<and>
            has_active_satellite (foldl (provider_step rinex) p0 ops)) \<and>
         (\<not> is_ready (foldl (provider_step rinex) p0 ops) \<longrightarrow>
            generate_chunk n t (foldl (provider_step rinex) p0 ops) = Inl NotReady)"
  using invariant_ready[OF invariant_run[OF invariant_fresh[OF assms]]]
    not_ready_generate_chunk by blast

lemma initialize_default_satellites_nonempty: "initialize_default_satellites GPS \<noteq> []"
  using default_satellites_has_active(1) by auto

theorem provider_readiness_witness:
  "Gps GpsL1Provider_new \<in> set fresh_providers \<and>
   \<not> is_ready (foldl (provider_step (\<lambda>c path. Some Map.empty)) (Gps GpsL1Provider_new)
                  [Configure GlobalConfig_default]) \<and>
   generate_chunk 4 0 (foldl (provider_step (\<lambda>c path. Some Map.empty)) (Gps GpsL1Provider_new)
                         [Configure GlobalConfig_default]) = Inl NotReady \<and>
   is_ready (foldl (provider_step (\<lambda>c path. Some Map.empty)) (Gps GpsL1Provider_new)
               [Configure GlobalConfig_default, LoadEphemeris ''gps.nav'']) \<and>
   has_active_satellite
     (foldl (provider_step (\<lambda>c path. Some Map.empty)) (Gps GpsL1Provider_new)
        [Configure GlobalConfig_default, LoadEphemeris ''gps.nav''])"
proof -
  have h: "Gps GpsL1Provider_new \<in> set fresh_providers"
    by (simp add: fresh_providers_def)
  have nr: "\<not> is_ready (foldl (provider_step (\<lambda>c path. Some Map.empty)) (Gps GpsL1Provider_new)
                  [Configure GlobalConfig_default])"
    by (simp add: cdma_is_ready_def cdma_configure_def GpsL1Provider_new_def)
  have r: "is_ready (foldl (provider_step (\<lambda>c path. Some Map.empty)) (Gps GpsL1Provider_new)
               [Configure GlobalConfig_default, LoadEphemeris ''gps.nav''])"
    by (simp add: cdma_is_ready_def cdma_configure_def GpsL1Provider_new_def
        gps_load_ephemeris_def attach_ephemeris_def initialize_default_satellites_nonempty)
  from h nr r
    provider_readiness[OF h, of "\<lambda>c path. Some Map.empty" "[Configure GlobalConfig_default]" 4 0]
    provider_readiness[OF h, of "\<lambda>c path. Some Map.empty"
       "[Configure GlobalConfig_default, LoadEphemeris ''gps.nav'']" 4 0]
  show ?thesis by blast
qed

section \<open>Chunk boundaries\<close>

text \<open>
  A chunk of the GPS provider in which no satellite changes chip and every active
  satellite has the same carrier phase, no Doppler and no valid ephemeris: each active
  satellite applies the same update to the buffer, and then has its carrier phase
  advanced.
\<close>

lemma chip_count_gps_initial: "chip_count (gps_initial_code_state k) = 0"
  by (simp add: gps_initial_code_state_def GPSCodeState_init_def split: option.splits)

lemma update_doppler_invalid: "\<not> is_valid (ephemeris sat) \<Longrightarrow> update_doppler t sat = sat"
  by (simp add: update_doppler_def)

lemma gps_satellites_uniform:
  fixes upd :: "cint16 list \<Rightarrow> cint16 list"
  assumes loop: "\<And>st sat buf. chip_count st = 0 \<Longrightarrow> is_active sat \<Longrightarrow>
        \<not> is_valid (ephemeris sat) \<Longrightarrow> doppler_hz sat = 0 \<Longrightarrow> code_phase_chips sat = 0 \<Longrightarrow>
        carrier_phase_rad sat = ph \<Longrightarrow>
        gps_sample_loop cfg t [0..<n] (st, sat, buf) = Some (st, sat, upd buf)"
    and sats: "\<forall>sat\<in>set sats. is_active sat \<longrightarrow>
        \<not> is_valid (ephemeris sat) \<and> doppler_hz sat = 0 \<and> code_phase_chips sat = 0 \<and>
        carrier_phase_rad sat = ph"
    and cs: "\<forall>k st. cs k = Some st \<longrightarrow> chip_count st = 0"
  shows "\<exists>cs'. gps_satellites cfg n t sats cs buf =
           Some (map (\<lambda>sat. if is_active sat
                            then update_carrier_phase 1575420000 cfg n sat else sat) sats,
                 cs', (upd ^^ length (filter is_active sats)) buf) \<and>
           (\<forall>k st. cs' k = Some st \<longrightarrow> chip_count st = 0)"
  using sats cs
proof (induction sats arbitrary: cs buf)
  case Nil
  then show ?case by simp
next
  case (Cons sat sats)
  show ?case
  proof (cases "is_active sat")
    case False
    from Cons.prems have "\<forall>s\<in>set sats. is_active s \<longrightarrow>
        \<not> is_valid (ephemeris s) \<and> doppler_hz s = 0 \<and> code_phase_chips s = 0 \<and>
        carrier_phase_rad s = ph" by simp
    from Cons.IH[OF this Cons.prems(2), of buf] False show ?thesis
      by auto
  next
    case True
    define st where
      "st = (case cs (prn sat) of None \<Rightarrow> gps_initial_code_state (prn sat) | Some s \<Rightarrow> s)"
    have st0: "chip_count st = 0"
      using Cons.prems(2) by (auto simp: st_def chip_count_gps_initial split: option.splits)
    from Cons.prems(1) True have ok: "\<not> is_valid (ephemeris sat)" "doppler_hz sat = 0"
      "code_phase_chips sat = 0" "carrier_phase_rad sat = ph" by simp_all
    have l: "gps_sample_loop cfg t [0..<n] (st, sat, buf) = Some (st, sat, upd buf)"
      by (rule loop[OF st0 True ok])
    have cs1: "\<forall>k s. (cs(prn sat \<mapsto> st)) k = Some s \<longrightarrow> chip_count s = 0"
      using Cons.prems(2) st0 by auto
    from Cons.prems have rest: "\<forall>s\<in>set sats. is_active s \<longrightarrow>
        \<not> is_valid (ephemeris s) \<and> doppler_hz s = 0 \<and> code_phase_chips s = 0 \<and>
        carrier_phase_rad s = ph" by simp
    from Cons.IH[OF rest cs1, of "upd buf"] obtain cs' where
      r: "gps_satellites cfg n t sats (cs(prn sat \<mapsto> st)) (upd buf) =
           Some (map (\<lambda>sat. if is_active sat
                            then update_carrier_phase 1575420000 cfg n sat else sat) sats,
                 cs', (upd ^^ length (filter is_active sats)) (upd buf))"
      and c': "\<forall>k s. cs' k = Some s \<longrightarrow> chip_count s = 0"
      by blast
    have "gps_satellites cfg n t (sat # sats) cs buf =
           Some (map (\<lambda>sat. if is_active sat
                            then update_carrier_phase 1575420000 cfg n sat else sat) (sat # sats),
                 cs', (upd ^^ length (filter is_active (sat # sats))) buf)"
      using True l r ok(1)
      by (simp add: update_doppler_invalid st_def[symmetric] funpow_swap1)
    with c' show ?thesis by blast
  qed
qed

lemma gps_generate_chunk_uniform:
  fixes upd :: "cint16 list \<Rightarrow> cint16 list"
  assumes ready: "cdma_is_ready p" and off: "frequency_offset_hz p = 0"
    and loop: "\<And>st sat buf. chip_count st = 0 \<Longrightarrow> is_active sat \<Longrightarrow>
        \<not> is_valid (ephemeris sat) \<Longrightarrow> doppler_hz sat = 0 \<Longrightarrow> code_phase_chips sat = 0 \<Longrightarrow>
        carrier_phase_rad sat = ph \<Longrightarrow>
        gps_sample_loop (config p) t [0..<n] (st, sat, buf) = Some (st, sat, upd buf)"
    and sats: "\<forall>sat\<in>set (active_satellites p). is_active sat \<longrightarrow>
        \<not> is_valid (ephemeris sat) \<and> doppler_hz sat = 0 \<and> code_phase_chips sat = 0 \<and>
        carrier_phase_rad sat = ph"
    and cs: "\<forall>k st. gps_code_states p k = Some st \<longrightarrow> chip_count st = 0"
  shows "\<exists>p'. gps_generate_chunk n t p =
            Inr (p', (upd ^^ length (filter is_active (active_satellites p)))
                       (replicate n (0, 0))) \<and>
          cdma_is_ready p' \<and> frequency_offset_hz p' = 0 \<and> config p' = config p \<and>
          active_satellites p' =
            map (\<lambda>sat. if is_active sat
                       then update_carrier_phase 1575420000 (config p) n sat else sat)
                (active_satellites p) \<and>
          (\<forall>k st. gps_code_states p' k = Some st \<longrightarrow> chip_count st = 0)"
proof -
  from gps_satellites_uniform[of ph "config p" t n upd "active_satellites p" "gps_code_states p"
        "replicate n (0, 0)", OF loop sats cs]
  obtain cs' where
    r: "gps_satellites (config p) n t (active_satellites p) (gps_code_states p)
          (replicate n (0, 0)) =
          Some (map (\<lambda>sat. if is_active sat
                           then update_carrier_phase 1575420000 (config p) n sat else sat)
                  (active_satellites p),
                cs', (upd ^^ length (filter is_active (active_satellites p)))
                       (replicate n (0, 0)))"
    and c': "\<forall>k st. cs' k = Some st \<longrightarrow> chip_count st = 0"
    by blast
  show ?thesis
    using ready off r c'
    by (simp add: gps_generate_chunk_def apply_frequency_offset_def cdma_is_ready_def)
qed

text \<open>A sample at which the chip index equals the stored chip count: no chip is drawn.\<close>

lemma gps_sample_same_chip:
  assumes "c_rem (double_to_int32 ((t + real i / sampling_rate_hz cfg) * 1023000)) 1023
             = chip_count st"
  shows "gps_sample cfg t i (st, sat, buf) =
     Some (st, sat, buf[i := accumulate_sample (buf ! i)
        (double_to_int16 ((if code_phase_chips sat = 1 then 1 else - 1) *
            cos (2 * pi * (1575420000 + doppler_hz sat) * (t + real i / sampling_rate_hz cfg)
                 + carrier_phase_rad sat) * 1000), 0)])"
  using assms by (simp add: gps_sample_def Let_def)

text \<open>The numbers of the case: at 6.0016 MHz the first two samples lie in chip 0, and the
  carrier advances by \<open>525 pi\<close> per sample.\<close>

lemma chip_index_first_samples:
  "c_rem (double_to_int32 ((0 + real 0 / 6001600) * 1023000)) 1023 = 0"
  "c_rem (double_to_int32 ((0 + real (Suc 0) / 6001600) * 1023000)) 1023 = 0"
  "c_rem (double_to_int32 ((1 / 6001600 + real 0 / 6001600) * 1023000)) 1023 = 0"
  by (simp_all add: c_rem_def double_to_int32_def trunc_toward_zero_def)

lemma cos_525_pi: "cos (525 * pi) = - 1"
  using cos_npi[of 525] by simp

lemma cos_526_pi: "cos (526 * pi) = 1"
  using cos_npi[of 526] by simp

lemma double_to_int16_1000:
  "double_to_int16 (- 1000) = - 1000" "double_to_int16 1000 = 1000"
  by (simp_all add: double_to_int16_def double_to_int32_def trunc_toward_zero_def
      int32_to_int16_def)

lemma c_fmod_525: "c_fmod (525 * pi) (2 * pi) = pi"
  by (simp add: c_fmod_def trunc_toward_zero_def)

lemma sample_loop_first_chunk:
  assumes "sampling_rate_hz cfg = 6001600" "chip_count st = 0" "doppler_hz sat = 0"
    "code_phase_chips sat = 0" "carrier_phase_rad sat = 0"
  shows "gps_sample_loop cfg 0 [0..<1] (st, sat, buf) =
           Some (st, sat, buf[0 := accumulate_sample (buf ! 0) (- 1000, 0)])"
proof -
  have "gps_sample cfg 0 0 (st, sat, buf) =
           Some (st, sat, buf[0 := accumulate_sample (buf ! 0) (- 1000, 0)])"
    using assms chip_index_first_samples(1)
    by (subst gps_sample_same_chip) (simp_all add: double_to_int16_1000)
  then show ?thesis by simp
qed

lemma sample_loop_second_chunk:
  assumes "sampling_rate_hz cfg = 6001600" "chip_count st = 0" "doppler_hz sat = 0"
    "code_phase_chips sat = 0" "carrier_phase_rad sat = pi"
  shows "gps_sample_loop cfg (1 / 6001600) [0..<1] (st, sat, buf) =
           Some (st, sat, buf[0 := accumulate_sample (buf ! 0) (- 1000, 0)])"
proof -
  have "2 * pi * (1575420000 + 0) * (1 / 6001600 + real 0 / 6001600) + pi = 526 * pi"
    by simp
  then have c: "cos (2 * pi * (1575420000 + 0) * (1 / 6001600 + real 0 / 6001600) + pi) = 1"
    by (simp only: cos_526_pi)
  have "gps_sample cfg (1 / 6001600) 0 (st, sat, buf) =
           Some (st, sat, buf[0 := accumulate_sample (buf ! 0) (- 1000, 0)])"
    using assms chip_index_first_samples(3)
    by (subst gps_sample_same_chip) (simp_all only: c, simp_all add: double_to_int16_1000)
  then show ?thesis by simp
qed

lemma sample_loop_double_chunk:
  assumes "sampling_rate_hz cfg = 6001600" "chip_count st = 0" "doppler_hz sat = 0"
    "code_phase_chips sat = 0" "carrier_phase_rad sat = 0"
  shows "gps_sample_loop cfg 0 [0..<2] (st, sat, buf) =
           Some (st, sat, buf[0 := accumulate_sample (buf ! 0) (- 1000, 0),
                              1 := accumulate_sample (buf ! 1) (1000, 0)])"
proof -
  have s0: "gps_sample cfg 0 0 (st, sat, buf) =
           Some (st, sat, buf[0 := accumulate_sample (buf ! 0) (- 1000, 0)])"
    using assms chip_index_first_samples(1)
    by (subst gps_sample_same_chip) (simp_all add: double_to_int16_1000)
  have "2 * pi * (1575420000 + 0) * (0 + real (Suc 0) / 6001600) + 0 = 525 * pi"
    by simp
  then have c: "cos (2 * pi * (1575420000 + 0) * (0 + real (Suc 0) / 6001600) + 0) = - 1"
    by (simp only: cos_525_pi)
  have s1: "gps_sample cfg 0 (Suc 0) (st, sat, b) =
           Some (st, sat, b[Suc 0 := accumulate_sample (b ! Suc 0) (1000, 0)])" for b
    using assms chip_index_first_samples(2)
    by (subst gps_sample_same_chip) (simp_all only: c, simp_all add: double_to_int16_1000)
  have "[0..<2] = [0, Suc 0]"
    by (simp add: upt_rec numeral_2_eq_2)
  then show ?thesis
    using s0 s1 by simp
qed

lemma default_gps_active: "length (filter is_active (default_satellites 32 (- 130) 8)) = 8"
  by (simp add: default_satellites_def upto_from_1 upto_rec_numeral)

lemma default_satellites_ok:
  "\<forall>sat\<in>set (default_satellites n pw k).
        \<not> is_valid (ephemeris sat) \<and> doppler_hz sat = 0 \<and> code_phase_chips sat = 0 \<and>
        carrier_phase_rad sat = 0"
  by (simp add: default_satellites_def EphemerisData_default_def)

lemma attach_empty: "attach_ephemeris Map.empty sats = sats"
  by (simp add: attach_ephemeris_def)

lemma filter_active_phase:
  "filter is_active
     (map (\<lambda>sat. if is_active sat then update_carrier_phase f cfg n sat else sat) sats)
     = map (update_carrier_phase f cfg n) (filter is_active sats)"
  by (induction sats) (simp_all add: update_carrier_phase_def)

lemma phase_after_one_sample:
  assumes "sampling_rate_hz cfg = 6001600" "doppler_hz sat = 0" "carrier_phase_rad sat = 0"
  shows "carrier_phase_rad (update_carrier_phase 1575420000 cfg 1 sat) = pi"
proof -
  have "0 + 2 * pi * (1575420000 + 0) * real 1 / 6001600 = 525 * pi"
    by simp
  then show ?thesis
    using assms
    by (simp only: update_carrier_phase_def SatelliteConfig.simps c_fmod_525) simp
qed

lemma funpow_numeral_step: "(f ^^ numeral k) x = (f ^^ pred_numeral k) (f x)"
  by (simp add: numeral_eq_Suc funpow_swap1)

lemma eight_satellites_one_sample:
  "((\<lambda>buf. buf[0 := accumulate_sample (buf ! 0) (- 1000, 0)]) ^^ 8) [(0, 0)]
     = [(- 8000, 0)]"
  by (simp add: funpow_numeral_step accumulate_sample_def int32_to_int16_def)

lemma eight_satellites_two_samples:
  "((\<lambda>buf. buf[0 := accumulate_sample (buf ! 0) (- 1000, 0),
               Suc 0 := accumulate_sample (buf ! Suc 0) (1000, 0)]) ^^ 8) [(0, 0), (0, 0)]
     = [(- 8000, 0), (8000, 0)]"
  by (simp add: funpow_numeral_step accumulate_sample_def int32_to_int16_def)

lemma replicate_two: "replicate 2 x = [x, x]"
  by (simp add: numeral_2_eq_2)

lemma gps_loaded_load:
  "gps_load_ephemeris (\<lambda>c path. Some Map.empty) ''gps.nav''
     (cdma_configure cfg_6MHz GpsL1Provider_new) = Inr gps_loaded"
  by (simp add: gps_load_ephemeris_def gps_loaded_def attach_empty cdma_configure_def
      GpsL1Provider_new_def initialize_default_satellites_def)

lemma default_satellites_nonempty: "default_satellites 32 pw k \<noteq> []"
  by (simp add: default_satellites_def upto_from_1)

lemma gps_loaded_facts:
  "cdma_is_ready gps_loaded" "frequency_offset_hz gps_loaded = 0" "config gps_loaded = cfg_6MHz"
  "active_satellites gps_loaded = default_satellites 32 (- 130) 8"
  "gps_code_states gps_loaded = Map.empty"
  by (simp_all add: gps_loaded_def cdma_is_ready_def cdma_configure_def GpsL1Provider_new_def
      default_satellites_nonempty)

lemma chunk_first:
  "\<exists>p1. gps_generate_chunk 1 0 gps_loaded = Inr (p1, [(- 8000, 0)]) \<and>
     cdma_is_ready p1 \<and> frequency_offset_hz p1 = 0 \<and> config p1 = cfg_6MHz \<and>
     active_satellites p1 =
       map (\<lambda>sat. if is_active sat then update_carrier_phase 1575420000 cfg_6MHz 1 sat else sat)
           (default_satellites 32 (- 130) 8) \<and>
     (\<forall>k st. gps_code_states p1 k = Some st \<longrightarrow> chip_count st = 0)"
proof -
  have fs: "sampling_rate_hz (config gps_loaded) = 6001600"
    by (simp add: gps_loaded_facts cfg_6MHz_def)
  have "\<exists>p'. gps_generate_chunk 1 0 gps_loaded =
            Inr (p', ((\<lambda>buf. buf[0 := accumulate_sample (buf ! 0) (- 1000, 0)]) ^^
                       length (filter is_active (active_satellites gps_loaded)))
                       (replicate 1 (0, 0))) \<and>
          cdma_is_ready p' \<and> frequency_offset_hz p' = 0 \<and> config p' = config gps_loaded \<and>
          active_satellites p' =
            map (\<lambda>sat. if is_active sat
                       then update_carrier_phase 1575420000 (config gps_loaded) 1 sat else sat)
                (active_satellites gps_loaded) \<and>
          (\<forall>k st. gps_code_states p' k = Some st \<longrightarrow> chip_count st = 0)"
  proof (rule gps_generate_chunk_uniform[where ph = 0])
    show "cdma_is_ready gps_loaded" by (rule gps_loaded_facts)
    show "frequency_offset_hz gps_loaded = 0" by (rule gps_loaded_facts)
    show "gps_sample_loop (config gps_loaded) 0 [0..<1] (st, sat, buf) =
            Some (st, sat, buf[0 := accumulate_sample (buf ! 0) (- 1000, 0)])"
      if "chip_count st = 0" "doppler_hz sat = 0" "code_phase_chips sat = 0"
         "carrier_phase_rad sat = 0" for st sat buf
      using fs that by (rule sample_loop_first_chunk)
    show "\<forall>sat\<in>set (active_satellites gps_loaded). is_active sat \<longrightarrow>
        \<not> is_valid (ephemeris sat) \<and> doppler_hz sat = 0 \<and> code_phase_chips sat = 0 \<and>
        carrier_phase_rad sat = 0"
      using default_satellites_ok by (simp add: gps_loaded_facts)
    show "\<forall>k st. gps_code_states gps_loaded k = Some st \<longrightarrow> chip_count st = 0"
      by (simp add: gps_loaded_facts)
  qed
  then obtain p' where p': "gps_generate_chunk 1 0 gps_loaded =
            Inr (p', ((\<lambda>buf. buf[0 := accumulate_sample (buf ! 0) (- 1000, 0)]) ^^
                       length (filter is_active (active_satellites gps_loaded)))
                       (replicate 1 (0, 0)))"
          "cdma_is_ready p'" "frequency_offset_hz p' = 0" "config p' = config gps_loaded"
          "active_satellites p' =
            map (\<lambda>sat. if is_active sat
                       then update_carrier_phase 1575420000 (config gps_loaded) 1 sat else sat)
                (active_satellites gps_loaded)"
          "\<forall>k st. gps_code_states p' k = Some st \<longrightarrow> chip_count st = 0"
    by blast
  have "((\<lambda>buf. buf[0 := accumulate_sample (buf ! 0) (- 1000, 0)]) ^^
                       length (filter is_active (active_satellites gps_loaded)))
                       (replicate 1 (0, 0))
         = [(- 8000, 0)]"
    by (simp only: gps_loaded_facts default_gps_active) (simp add: eight_satellites_one_sample)
  with p' show ?thesis
    by (auto simp only: gps_loaded_facts)
qed

lemma chunk_double:
  "\<exists>p3. gps_generate_chunk 2 0 gps_loaded = Inr (p3, [(- 8000, 0), (8000, 0)])"
proof -
  have fs: "sampling_rate_hz (config gps_loaded) = 6001600"
    by (simp add: gps_loaded_facts cfg_6MHz_def)
  have "\<exists>p'. gps_generate_chunk 2 0 gps_loaded =
            Inr (p', ((\<lambda>buf. buf[0 := accumulate_sample (buf ! 0) (- 1000, 0),
                                  1 := accumulate_sample (buf ! 1) (1000, 0)]) ^^
                       length (filter is_active (active_satellites gps_loaded)))
                       (replicate 2 (0, 0))) \<and>
          cdma_is_ready p' \<and> frequency_offset_hz p' = 0 \<and> config p' = config gps_loaded \<and>
          active_satellites p' =
            map (\<lambda>sat. if is_active sat
                       then update_carrier_phase 1575420000 (config gps_loaded) 2 sat else sat)
                (active_satellites gps_loaded) \<and>
          (\<forall>k st. gps_code_states p' k = Some st \<longrightarrow> chip_count st = 0)"
  proof (rule gps_generate_chunk_uniform[where ph = 0])
    show "cdma_is_ready gps_loaded" by (rule gps_loaded_facts)
    show "frequency_offset_hz gps_loaded = 0" by (rule gps_loaded_facts)
    show "gps_sample_loop (config gps_loaded) 0 [0..<2] (st, sat, buf) =
            Some (st, sat, buf[0 := accumulate_sample (buf ! 0) (- 1000, 0),
                               1 := accumulate_sample (buf ! 1) (1000, 0)])"
      if "chip_count st = 0" "doppler_hz sat = 0" "code_phase_chips sat = 0"
         "carrier_phase_rad sat = 0" for st sat buf
      using fs that by (rule sample_loop_double_chunk)
    show "\<forall>sat\<in>set (active_satellites gps_loaded). is_active sat \<longrightarrow>
        \<not> is_valid (ephemeris sat) \<and> doppler_hz sat = 0 \<and> code_phase_chips sat = 0 \<and>
        carrier_phase_rad sat = 0"
      using default_satellites_ok by (simp add: gps_loaded_facts)
    show "\<forall>k st. gps_code_states gps_loaded k = Some st \<longrightarrow> chip_count st = 0"
      by (simp add: gps_loaded_facts)
  qed
  then obtain p' where p': "gps_generate_chunk 2 0 gps_loaded =
            Inr (p', ((\<lambda>buf. buf[0 := accumulate_sample (buf ! 0) (- 1000, 0),
                                  1 := accumulate_sample (buf ! 1) (1000, 0)]) ^^
                       length (filter is_active (active_satellites gps_loaded)))
                       (replicate 2 (0, 0)))"
    by blast
  have "((\<lambda>buf. buf[0 := accumulate_sample (buf ! 0) (- 1000, 0),
                                  1 := accumulate_sample (buf ! 1) (1000, 0)]) ^^
                       length (filter is_active (active_satellites gps_loaded)))
                       (replicate 2 (0, 0))
         = [(- 8000, 0), (8000, 0)]"
    by (simp only: gps_loaded_facts default_gps_active replicate_two)
       (simp add: eight_satellites_two_samples)
  with p' show ?thesis
    by auto
qed

lemma chunk_second:
  assumes "cdma_is_ready p1" "frequency_offset_hz p1 = 0" "config p1 = cfg_6MHz"
    "active_satellites p1 =
       map (\<lambda>sat. if is_active sat then update_carrier_phase 1575420000 cfg_6MHz 1 sat else sat)
           (default_satellites 32 (- 130) 8)"
    "\<forall>k st. gps_code_states p1 k = Some st \<longrightarrow> chip_count st = 0"
  shows "\<exists>p2. gps_generate_chunk 1 (1 / 6001600) p1 = Inr (p2, [(- 8000, 0)])"
proof -
  have fs: "sampling_rate_hz (config p1) = 6001600"
    by (simp add: assms cfg_6MHz_def)
  have fs0: "sampling_rate_hz cfg_6MHz = 6001600"
    by (simp add: cfg_6MHz_def)
  have ok: "\<forall>sat\<in>set (active_satellites p1). is_active sat \<longrightarrow>
        \<not> is_valid (ephemeris sat) \<and> doppler_hz sat = 0 \<and> code_phase_chips sat = 0 \<and>
        carrier_phase_rad sat = pi"
  proof (intro ballI impI)
    fix sat assume "sat \<in> set (active_satellites p1)" and act: "is_active sat"
    then obtain s where s: "s \<in> set (default_satellites 32 (- 130) 8)"
      and sat: "sat = (if is_active s then update_carrier_phase 1575420000 cfg_6MHz 1 s else s)"
      by (auto simp: assms(4))
    from s default_satellites_ok have s_ok: "\<not> is_valid (ephemeris s)" "doppler_hz s = 0"
      "code_phase_chips s = 0" "carrier_phase_rad s = 0" by blast+
    from act sat have "is_active s"
      by (auto simp: update_carrier_phase_def split: if_splits)
    then have sat': "sat = update_carrier_phase 1575420000 cfg_6MHz 1 s"
      using sat by simp
    have "carrier_phase_rad sat = pi"
      unfolding sat' using fs0 s_ok(2) s_ok(4) by (rule phase_after_one_sample)
    moreover have "\<not> is_valid (ephemeris sat)" "doppler_hz sat = 0" "code_phase_chips sat = 0"
      using s_ok by (simp_all add: sat' update_carrier_phase_def)
    ultimately show "\<not> is_valid (ephemeris sat) \<and> doppler_hz sat = 0 \<and>
        code_phase_chips sat = 0 \<and> carrier_phase_rad sat = pi" by simp
  qed
  have cnt: "length (filter is_active (active_satellites p1)) = 8"
    by (simp only: assms(4) filter_active_phase length_map default_gps_active)
  have "\<exists>p'. gps_generate_chunk 1 (1 / 6001600) p1 =
            Inr (p', ((\<lambda>buf. buf[0 := accumulate_sample (buf ! 0) (- 1000, 0)]) ^^
                       length (filter is_active (active_satellites p1))) (replicate 1 (0, 0))) \<and>
          cdma_is_ready p' \<and> frequency_offset_hz p' = 0 \<and> config p' = config p1 \<and>
          active_satellites p' =
            map (\<lambda>sat. if is_active sat
                       then update_carrier_phase 1575420000 (config p1) 1 sat else sat)
                (active_satellites p1) \<and>
          (\<forall>k st. gps_code_states p' k = Some st \<longrightarrow> chip_count st = 0)"
  proof (rule gps_generate_chunk_uniform[where ph = pi])
    show "cdma_is_ready p1" by (rule assms)
    show "frequency_offset_hz p1 = 0" by (rule assms)
    show "gps_sample_loop (config p1) (1 / 6001600) [0..<1] (st, sat, buf) =
            Some (st, sat, buf[0 := accumulate_sample (buf ! 0) (- 1000, 0)])"
      if "chip_count st = 0" "doppler_hz sat = 0" "code_phase_chips sat = 0"
         "carrier_phase_rad sat = pi" for st sat buf
      using fs that by (rule sample_loop_second_chunk)
    show "\<forall>sat\<in>set (active_satellites p1). is_active sat \<longrightarrow>
        \<not> is_valid (ephemeris sat) \<and> doppler_hz sat = 0 \<and> code_phase_chips sat = 0 \<and>
        carrier_phase_rad sat = pi"
      by (rule ok)
    show "\<forall>k st. gps_code_states p1 k = Some st \<longrightarrow> chip_count st = 0"
      by (rule assms)
  qed
  then obtain p' where p': "gps_generate_chunk 1 (1 / 6001600) p1 =
            Inr (p', ((\<lambda>buf. buf[0 := accumulate_sample (buf ! 0) (- 1000, 0)]) ^^
                       length (filter is_active (active_satellites p1))) (replicate 1 (0, 0)))"
    by blast
  have "((\<lambda>buf. buf[0 := accumulate_sample (buf ! 0) (- 1000, 0)]) ^^
                       length (filter is_active (active_satellites p1))) (replicate 1 (0, 0))
         = [(- 8000, 0)]"
    by (simp only: cnt) (simp add: eight_satellites_one_sample)
  with p' show ?thesis
    by auto
qed

text \<open>
  C2. The claim: for a ready provider, two consecutive chunks of \<open>N\<close> samples, the second
  starting at \<open>t0 + N/fs\<close>, concatenate to the single chunk of \<open>2N\<close> samples from \<open>t0\<close>.
  A GPS provider configured with the sample rate 6.0016 MHz, with an ephemeris file
  without records loaded, gives for \<open>N = 1\<close> and \<open>t0 = 0\<close> the two chunks \<open>(-8000, 0)\<close>
  and \<open>(-8000, 0)\<close>, and for the single call with two samples \<open>(-8000, 0), (8000, 0)\<close>:
  the second call adds the stored carrier phase, advanced "for continuity" by one
  chunk, to a phase that is computed from the absolute sample time and so already
  contains that advance.
\<close>

theorem gps_chunks_do_not_concatenate:
  "(case gps_load_ephemeris (\<lambda>c path. Some Map.empty) ''gps.nav''
           (cdma_configure
              \<lparr>sampling_rate_hz = 6001600, center_frequency_hz = 1582000000,
               active_constellations = [GPS]\<rparr> GpsL1Provider_new) of
      Inl e \<Rightarrow> False
    | Inr p \<Rightarrow>
        (case gps_generate_chunk 1 0 p of
           Inl e \<Rightarrow> False
         | Inr (p1, chunk1) \<Rightarrow>
             (case gps_generate_chunk 1 (1 / 6001600) p1 of
                Inl e \<Rightarrow> False
              | Inr (p2, chunk2) \<Rightarrow> chunk1 @ chunk2 = [(- 8000, 0), (- 8000, 0)])) \<and>
        (case gps_generate_chunk 2 0 p of
           Inl e \<Rightarrow> False
         | Inr (p3, chunk) \<Rightarrow> chunk = [(- 8000, 0), (8000, 0)]))"
proof -
  from chunk_first obtain p1 where
    c1: "gps_generate_chunk 1 0 gps_loaded = Inr (p1, [(- 8000, 0)])"
    and p1: "cdma_is_ready p1" "frequency_offset_hz p1 = 0" "config p1 = cfg_6MHz"
      "active_satellites p1 =
       map (\<lambda>sat. if is_active sat then update_carrier_phase 1575420000 cfg_6MHz 1 sat else sat)
           (default_satellites 32 (- 130) 8)"
      "\<forall>k st. gps_code_states p1 k = Some st \<longrightarrow> chip_count st = 0"
    by blast
  from chunk_second[OF p1] obtain p2 where
    c2: "gps_generate_chunk 1 (1 / 6001600) p1 = Inr (p2, [(- 8000, 0)])"
    by blast
  from chunk_double obtain p3 where
    c3: "gps_generate_chunk 2 0 gps_loaded = Inr (p3, [(- 8000, 0), (8000, 0)])"
    by blast
  show ?thesis
    using gps_loaded_load c1 c2 c3 by (simp add: cfg_6MHz_def)
qed

end
